theory Spec2Isabelle
  imports Main
begin

section \<open>Errors, settled promises and traced effects\<close>

text \<open>
  Every \<^verbatim>\<open>throw\<close> and every rejected \<^verbatim>\<open>await\<close> of the TypeScript is a value of
  \<open>error\<close>. A computation that talks to the outside returns the list of calls it issued,
  in order, together with its outcome.
\<close>

datatype error = Error string | TypeError string | NetworkError string

datatype 'a settled = Fulfilled 'a | Rejected error

datatype channel = Connection | NodeFetch

datatype json = JString string | JArray "json list" | JObject "(string \<times> json) list"

datatype body = JsonBody json | TextBody string

record request =
  req_url :: string
  req_method :: string
  req_headers :: "(string \<times> string) list"
  req_body :: "body option"

type_synonym 'a io = "(channel \<times> request) list \<times> (error + 'a)"

definition io_return :: "'a \<Rightarrow> 'a io" where
  "io_return x = ([], Inr x)"

definition io_throw :: "error \<Rightarrow> 'a io" where
  "io_throw e = ([], Inl e)"

definition io_call :: "channel \<Rightarrow> request \<Rightarrow> (request \<Rightarrow> error + 'a) \<Rightarrow> 'a io" where
  "io_call ch req f = ([(ch, req)], f req)"

definition io_await :: "error + 'a \<Rightarrow> 'a io" where
  "io_await r = ([], r)"

definition io_bind :: "'a io \<Rightarrow> ('a \<Rightarrow> 'b io) \<Rightarrow> 'b io" where
  "io_bind m f =
     (case m of
        (tr, Inl e) \<Rightarrow> (tr, Inl e)
      | (tr, Inr x) \<Rightarrow> (case f x of (tr', r) \<Rightarrow> (tr @ tr', r)))"

text \<open>
  \<^verbatim>\<open>Promise.allSettled\<close>: every task runs; a task's failure becomes its own
  \<open>Rejected\<close> entry and the combined promise always fulfils.
\<close>

definition settle :: "'a io \<Rightarrow> 'a option settled" where
  "settle m = (case snd m of Inl e \<Rightarrow> Rejected e | Inr x \<Rightarrow> Fulfilled (Some x))"

definition allSettled :: "'a io list \<Rightarrow> ('a option settled list) io" where
  "allSettled ms = (concat (map fst ms), Inr (map settle ms))"

text \<open>
  Modelled from the spec: \<^verbatim>\<open>getSettledValue\<close> of \<^verbatim>\<open>system/promise\<close> is imported by the
  service but is not among the sources. The spec asks for collect-all-settled semantics
  where each result is captured individually and a failed one is absent: a fulfilled
  entry yields its value (which may itself be \<^verbatim>\<open>undefined\<close>), a rejected one yields
  \<^verbatim>\<open>undefined\<close>.
\<close>

definition getSettledValue :: "'a option settled \<Rightarrow> 'a option" where
  "getSettledValue r = (case r of Fulfilled v \<Rightarrow> v | Rejected _ \<Rightarrow> None)"

section \<open>Data of the cloud patch service\<close>

record git_provider =
  provider_id :: string
  provider_path :: string
  provider_owner :: "string option"

record git_remote =
  remote_provider :: "git_provider option"

record git_user =
  user_email :: "string option"
  user_name :: "string option"

record git_branch =
  branch_name :: string

record repository =
  repo_path :: string
  repo_uri :: string

text \<open>A pre-signed endpoint: \<^verbatim>\<open>{ url, method, headers: { Host: string[] } }\<close>.\<close>

record secure_data =
  sd_url :: string
  sd_method :: string
  sd_headers :: "(string \<times> string list) list option"

text \<open>
  \<^verbatim>\<open>CloudPatch\<close> and \<^verbatim>\<open>CloudPatchChangeset\<close> are declared over \<^verbatim>\<open>GitCloudPatch\<close>. The
  service fills \<open>patches\<close> with the rows of the server verbatim, the webview reads the
  mutable members of the patch; the records leave the patch type open.
\<close>

text \<open>
  A patch row as the server sends it (\<^verbatim>\<open>CloudPatchResponse\<close>, read through \<^verbatim>\<open>any\<close>).
  The optional fields of the interface are options; so are the two pre-signed
  endpoints, which no declared type promises on a row.
\<close>

record patch_row =
  pr_id :: string
  pr_draftId :: string
  pr_gitProfileId :: "string option"
  pr_gitRepositoryName :: "string option"
  pr_gitBranchName :: "string option"
  pr_secureUploadData :: "secure_data option"
  pr_secureDownloadData :: "secure_data option"

record cloud_patch_data =
  cpd_id :: string
  cpd_draftId :: string
  cpd_gitProfileId :: "string option"
  cpd_gitRepositoryName :: "string option"
  cpd_gitBranchName :: "string option"
  cpd_contents :: string

text \<open>A time stamp is either wrapped by \<^verbatim>\<open>new Date(...)\<close> or kept as the server sent it.\<close>

datatype js_time = Date string | RawTime string

record changeset_data =
  csd_id :: string
  csd_createdAt :: string
  csd_updatedAt :: string
  csd_draftId :: string
  csd_gitProfileId :: string
  csd_parentChangesetId :: string
  csd_patches :: "patch_row list"

record 'p cloud_patch_changeset =
  cs_id :: string
  cs_createdAt :: js_time
  cs_updatedAt :: js_time
  cs_draftId :: string
  cs_gitProfileId :: string
  cs_parentChangesetId :: string
  cs_patches :: "'p list"

record draft_data =
  dd_id :: string
  dd_deepLink :: string
  dd_title :: "string option"
  dd_description :: "string option"
  dd_createdAt :: string
  dd_updatedAt :: string
  dd_createdBy :: string
  dd_isPublic :: bool
  dd_organizationId :: "string option"

record 'p cloud_patch =
  cp_id :: string
  cp_linkUrl :: string
  cp_title :: "string option"
  cp_description :: "string option"
  cp_createdAt :: js_time
  cp_updatedAt :: js_time
  cp_createdBy :: string
  cp_isPublic :: bool
  cp_organizationId :: "string option"
  cp_changesets :: "'p cloud_patch_changeset list"

text \<open>
  The collaborators of the service. The git facade and \<^verbatim>\<open>Uri.joinPath\<close> are parameters.
  \<^verbatim>\<open>connection.fetch\<close> is given per endpoint with the type of the \<^verbatim>\<open>data\<close> member of
  the JSON the endpoint answers with: \<open>Inl\<close> when the awaited fetch or \<^verbatim>\<open>json()\<close>
  rejects, \<open>Inr None\<close> when the answer carries no \<^verbatim>\<open>data\<close>. The two \<open>_text\<close> fields are
  a fetch followed by \<^verbatim>\<open>text()\<close>, through the connection and through node-fetch.
\<close>

record env =
  baseGkApiUri :: string
  joinPath :: "string \<Rightarrow> string \<Rightarrow> string"
  getBestRemoteWithProvider :: "string \<Rightarrow> git_remote option settled"
  getCurrentUser :: "string \<Rightarrow> git_user option settled"
  getBranch :: "repository \<Rightarrow> git_branch option settled"
  getUniqueRepositoryId :: "string \<Rightarrow> error + string option"
  post_drafts :: "request \<Rightarrow> error + string option"
  get_draft :: "request \<Rightarrow> error + draft_data option"
  post_changesets :: "request \<Rightarrow> error + changeset_data option"
  patch_patches :: "request \<Rightarrow> error + unit"
  get_changesets :: "request \<Rightarrow> error + changeset_data list option"
  get_patches :: "request \<Rightarrow> error + patch_row list option"
  get_patch :: "request \<Rightarrow> error + patch_row option"
  connection_text :: "request \<Rightarrow> error + string"
  node_fetch_text :: "request \<Rightarrow> error + string"

section \<open>CloudPatchService\<close>

text \<open>\<^verbatim>\<open>headers?.['Host']?.['0'] ?? ''\<close>\<close>

definition host_header :: "(string \<times> string list) list option \<Rightarrow> string" where
  "host_header headers =
     (case headers of
        None \<Rightarrow> ''''
      | Some hs \<Rightarrow>
          (case map_of hs ''Host'' of
             None \<Rightarrow> ''''
           | Some [] \<Rightarrow> ''''
           | Some (h # _) \<Rightarrow> h))"

text \<open>An object literal handed to \<^verbatim>\<open>JSON.stringify\<close>: members whose value is
  \<^verbatim>\<open>undefined\<close> are left out of the text.\<close>

definition js_object :: "(string \<times> json option) list \<Rightarrow> json" where
  "js_object props = JObject (List.map_filter (\<lambda>(k, v). map_option (Pair k) v) props)"

fun split_on :: "char \<Rightarrow> string \<Rightarrow> string list" where
  "split_on c [] = [[]]"
| "split_on c (x # xs) =
     (if x = c then [] # split_on c xs
      else (case split_on c xs of [] \<Rightarrow> [[x]] | w # ws \<Rightarrow> (x # w) # ws))"

definition nth_opt :: "'a list \<Rightarrow> nat \<Rightarrow> 'a option" where
  "nth_opt xs i = (if i < length xs then Some (xs ! i) else None)"

text \<open>The spread \<^verbatim>\<open>...(sha != null && sha != '-' && { initialCommitSha: sha })\<close> inside
  \<^verbatim>\<open>gitRepoData\<close>: spreading \<^verbatim>\<open>false\<close> adds nothing.\<close>

definition gitRepoData :: "string option \<Rightarrow> json" where
  "gitRepoData repoFirstCommitSha =
     JObject
       (case repoFirstCommitSha of
          None \<Rightarrow> []
        | Some sha \<Rightarrow> if sha \<noteq> ''-'' then [(''initialCommitSha'', JString sha)] else [])"

text \<open>Reading a member of a JSON object, and the \<^verbatim>\<open>gitRepoData\<close> of the first patch in the
  body of a changeset-creation request.\<close>

definition json_member :: "json \<Rightarrow> string \<Rightarrow> json option" where
  "json_member j k = (case j of JObject kvs \<Rightarrow> map_of kvs k | _ \<Rightarrow> None)"

definition sent_gitRepoData :: "request \<Rightarrow> json option" where
  "sent_gitRepoData req =
     (case req_body req of
        Some (JsonBody b) \<Rightarrow>
          (case json_member b ''patches'' of
             Some (JArray (p # _)) \<Rightarrow> json_member p ''gitRepoData''
           | _ \<Rightarrow> None)
      | _ \<Rightarrow> None)"

subsection \<open>The requests the service builds\<close>

definition draft_create_request :: "env \<Rightarrow> request" where
  "draft_create_request env =
     \<lparr>req_url = joinPath env (baseGkApiUri env) ''v1/drafts'', req_method = ''POST'',
      req_headers = [], req_body = None\<rparr>"

definition draft_request :: "env \<Rightarrow> string \<Rightarrow> request" where
  "draft_request env ident =
     \<lparr>req_url = joinPath env (baseGkApiUri env) (''v1/drafts/'' @ ident), req_method = ''GET'',
      req_headers = [], req_body = None\<rparr>"

definition changesets_request :: "env \<Rightarrow> string \<Rightarrow> request" where
  "changesets_request env ident =
     \<lparr>req_url = joinPath env (baseGkApiUri env) (''/v1/drafts/'' @ ident @ ''/changesets''),
      req_method = ''GET'', req_headers = [], req_body = None\<rparr>"

definition changeset_create_request ::
  "env \<Rightarrow> string \<Rightarrow> string \<Rightarrow> string \<Rightarrow> string \<Rightarrow> string option \<Rightarrow> request" where
  "changeset_create_request env draftId gitProfileId baseSha branchName repoFirstCommitSha =
     \<lparr>req_url = joinPath env (baseGkApiUri env) (''v1/drafts/'' @ draftId @ ''/changesets''),
      req_method = ''POST'', req_headers = [],
      req_body = Some (JsonBody (js_object
        [(''gitProfileId'', Some (JString gitProfileId)),
         (''patches'', Some (JArray
            [js_object
               [(''baseCommitSha'', Some (JString baseSha)),
                (''baseBranchName'', Some (JString branchName)),
                (''gitRepoData'', Some (gitRepoData repoFirstCommitSha))]]))]))\<rparr>"

definition upload_request :: "secure_data \<Rightarrow> string \<Rightarrow> request" where
  "upload_request sd contents =
     \<lparr>req_url = sd_url sd, req_method = sd_method sd,
      req_headers = [(''Content-Type'', ''plain/text''), (''Host'', host_header (sd_headers sd))],
      req_body = Some (TextBody contents)\<rparr>"

definition patch_update_request ::
  "env \<Rightarrow> string \<Rightarrow> string \<Rightarrow> string \<Rightarrow> git_provider \<Rightarrow> string \<Rightarrow> request" where
  "patch_update_request env patchId baseSha gitProfileId prov branchName =
     \<lparr>req_url = joinPath env (baseGkApiUri env) (''/v1/patches/'' @ patchId),
      req_method = ''PATCH'', req_headers = [],
      req_body = Some (JsonBody (js_object
        [(''baseCommitSha'', Some (JString baseSha)),
         (''gitProfileId'', Some (JString gitProfileId)),
         (''gitProvider'', Some (JString (provider_id prov))),
         (''gitRepositoryName'',
            map_option JString (nth_opt (split_on CHR ''/'' (provider_path prov)) 1)),
         (''gitRepositoryOwner'', map_option JString (provider_owner prov)),
         (''gitBranchName'', Some (JString branchName))]))\<rparr>"

definition patches_request :: "env \<Rightarrow> string \<Rightarrow> request" where
  "patches_request env ident =
     \<lparr>req_url = joinPath env (baseGkApiUri env) (''/v1/drafts/'' @ ident @ ''/patches''),
      req_method = ''GET'', req_headers = [], req_body = None\<rparr>"

definition patch_request :: "env \<Rightarrow> string \<Rightarrow> request" where
  "patch_request env ident =
     \<lparr>req_url = joinPath env (baseGkApiUri env) (''/v1/patches/'' @ ident), req_method = ''GET'',
      req_headers = [], req_body = None\<rparr>"

definition download_request :: "secure_data \<Rightarrow> request" where
  "download_request sd =
     \<lparr>req_url = sd_url sd, req_method = sd_method sd,
      req_headers = [(''Accept'', ''text/plain''), (''Host'', host_header (sd_headers sd))],
      req_body = None\<rparr>"

subsection \<open>get and getChangesets\<close>

definition changeset_of :: "changeset_data \<Rightarrow> patch_row cloud_patch_changeset" where
  "changeset_of changesetData =
     \<lparr>cs_id = csd_id changesetData,
      cs_createdAt = Date (csd_createdAt changesetData),
      cs_updatedAt = Date (csd_updatedAt changesetData),
      cs_draftId = csd_draftId changesetData,
      cs_gitProfileId = csd_gitProfileId changesetData,
      cs_parentChangesetId = csd_parentChangesetId changesetData,
      cs_patches = csd_patches changesetData\<rparr>"

text \<open>\<^verbatim>\<open>changesetsData.map(...)\<close> is called on whatever \<^verbatim>\<open>data\<close> is: on \<^verbatim>\<open>undefined\<close> it
  throws a \<^verbatim>\<open>TypeError\<close>.\<close>

definition getChangesets :: "env \<Rightarrow> string \<Rightarrow> patch_row cloud_patch_changeset list option io" where
  "getChangesets env ident =
     io_bind (io_call Connection (changesets_request env ident) (get_changesets env))
       (\<lambda>changesetsData.
          case changesetsData of
            None \<Rightarrow> io_throw (TypeError ''Cannot read properties of undefined (reading map)'')
          | Some rows \<Rightarrow> io_return (Some (map changeset_of rows)))"

definition get :: "env \<Rightarrow> string \<Rightarrow> patch_row cloud_patch option io" where
  "get env ident =
     io_bind (io_call Connection (draft_request env ident) (get_draft env))
       (\<lambda>draftData.
          io_bind (getChangesets env ident)
            (\<lambda>changeSets.
               case draftData of
                 None \<Rightarrow> io_throw (TypeError ''Cannot read properties of undefined (reading id)'')
               | Some d \<Rightarrow>
                   io_return (Some
                     \<lparr>cp_id = dd_id d,
                      cp_linkUrl = dd_deepLink d,
                      cp_title = dd_title d,
                      cp_description = dd_description d,
                      cp_createdAt = Date (dd_createdAt d),
                      cp_updatedAt = Date (dd_updatedAt d),
                      cp_createdBy = dd_createdBy d,
                      cp_isPublic = dd_isPublic d,
                      cp_organizationId = dd_organizationId d,
                      cp_changesets = (case changeSets of None \<Rightarrow> [] | Some cs \<Rightarrow> cs)\<rparr>)))"

subsection \<open>create\<close>

text \<open>The three ancillary facts after \<^verbatim>\<open>Promise.allSettled\<close>: the provider of the best
  remote, the git profile id and the branch name.\<close>

record resolved =
  res_provider :: git_provider
  res_gitProfileId :: string
  res_branchName :: string

definition resolve :: "env \<Rightarrow> repository \<Rightarrow> error + resolved" where
  "resolve env repository =
     (let remoteResult = getBestRemoteWithProvider env (repo_uri repository);
          userResult = getCurrentUser env (repo_uri repository);
          branchResult = getBranch env repository;
          remote = getSettledValue remoteResult
      in case Option.bind remote remote_provider of
           None \<Rightarrow> Inl (Error ''No Git provider found'')
         | Some prov \<Rightarrow>
             (let user = getSettledValue userResult;
                  gitProfileId =
                    (case Option.bind user user_email of
                       Some e \<Rightarrow> e
                     | None \<Rightarrow> (case Option.bind user user_name of Some n \<Rightarrow> n | None \<Rightarrow> []));
                  branch = getSettledValue branchResult;
                  branchName = (case branch of Some b \<Rightarrow> branch_name b | None \<Rightarrow> [])
              in Inr \<lparr>res_provider = prov, res_gitProfileId = gitProfileId,
                      res_branchName = branchName\<rparr>))"

text \<open>The provider \<^verbatim>\<open>create\<close> tests with \<^verbatim>\<open>remote?.provider == null\<close>.\<close>

definition found_provider :: "env \<Rightarrow> repository \<Rightarrow> git_provider option" where
  "found_provider env repository =
     Option.bind (getSettledValue (getBestRemoteWithProvider env (repo_uri repository)))
       remote_provider"

text \<open>The part of \<^verbatim>\<open>create\<close> after the draft was created and read back. The created
  changeset is returned as the server sent it.\<close>

definition raw_changeset :: "changeset_data \<Rightarrow> patch_row cloud_patch_changeset" where
  "raw_changeset changesetData =
     \<lparr>cs_id = csd_id changesetData,
      cs_createdAt = RawTime (csd_createdAt changesetData),
      cs_updatedAt = RawTime (csd_updatedAt changesetData),
      cs_draftId = csd_draftId changesetData,
      cs_gitProfileId = csd_gitProfileId changesetData,
      cs_parentChangesetId = csd_parentChangesetId changesetData,
      cs_patches = csd_patches changesetData\<rparr>"

definition publish ::
  "env \<Rightarrow> repository \<Rightarrow> string \<Rightarrow> string \<Rightarrow> resolved \<Rightarrow> string \<Rightarrow> patch_row cloud_patch \<Rightarrow>
   patch_row cloud_patch option io" where
  "publish env repository baseSha contents r draftId newDraft =
     io_bind (io_await (getUniqueRepositoryId env (repo_path repository)))
       (\<lambda>repoFirstCommitSha.
     io_bind (io_call Connection
                (changeset_create_request env draftId (res_gitProfileId r) baseSha
                   (res_branchName r) repoFirstCommitSha)
                (post_changesets env))
       (\<lambda>changesetCreatedData.
          case changesetCreatedData of
            None \<Rightarrow> io_throw (TypeError ''Cannot read properties of undefined (reading patches)'')
          | Some created \<Rightarrow>
              (case csd_patches created of
                 [] \<Rightarrow> io_throw
                   (TypeError ''Cannot read properties of undefined (reading secureUploadData)'')
               | patch # _ \<Rightarrow>
                   (case pr_secureUploadData patch of
                      None \<Rightarrow> io_throw
                        (TypeError ''Cannot destructure property url of patch.secureUploadData'')
                    | Some sd \<Rightarrow>
                        io_bind (io_call NodeFetch (upload_request sd contents) (node_fetch_text env))
                          (\<lambda>_.
                        io_bind (io_call Connection
                                   (patch_update_request env (pr_id patch) baseSha
                                      (res_gitProfileId r) (res_provider r) (res_branchName r))
                                   (patch_patches env))
                          (\<lambda>_.
                             io_return (Some
                               (newDraft\<lparr>cp_changesets := [raw_changeset created]\<rparr>))))))))"

definition create :: "env \<Rightarrow> repository \<Rightarrow> string \<Rightarrow> string \<Rightarrow> patch_row cloud_patch option io" where
  "create env repository baseSha contents =
     (case resolve env repository of
        Inl e \<Rightarrow> io_throw e
      | Inr r \<Rightarrow>
          io_bind (io_call Connection (draft_create_request env) (post_drafts env))
            (\<lambda>draftData.
               case draftData of
                 None \<Rightarrow> io_throw (TypeError ''Cannot read properties of undefined (reading id)'')
               | Some draftId \<Rightarrow>
                   io_bind (get env draftId)
                     (\<lambda>newDraft.
                        case newDraft of
                          None \<Rightarrow> io_return None
                        | Some d \<Rightarrow> publish env repository baseSha contents r draftId d)))"

subsection \<open>getPatches, getPatch and getPatchContents\<close>

record patches_options =
  includeContents :: "bool option"

text \<open>\<^verbatim>\<open>options?.includeContents\<close> as a condition.\<close>

definition wants_contents :: "patches_options option \<Rightarrow> bool" where
  "wants_contents options =
     (case options of None \<Rightarrow> False | Some opts \<Rightarrow> includeContents opts = Some True)"


text \<open>The object each callback of \<^verbatim>\<open>getPatches\<close> returns.\<close>

definition patch_data :: "patch_row \<Rightarrow> string \<Rightarrow> cloud_patch_data" where
  "patch_data patchData contents =
     \<lparr>cpd_id = pr_id patchData,
      cpd_draftId = pr_draftId patchData,
      cpd_gitProfileId = pr_gitProfileId patchData,
      cpd_gitRepositoryName = pr_gitRepositoryName patchData,
      cpd_gitBranchName = pr_gitBranchName patchData,
      cpd_contents = contents\<rparr>"

text \<open>The asynchronous callback \<^verbatim>\<open>getPatches\<close> maps over the rows. Destructuring
  \<^verbatim>\<open>patchData.secureDownloadData\<close> comes first and throws when the row has none.\<close>

definition patch_task :: "env \<Rightarrow> patches_options option \<Rightarrow> patch_row \<Rightarrow> cloud_patch_data io" where
  "patch_task env options patchData =
     (case pr_secureDownloadData patchData of
        None \<Rightarrow> io_throw
          (TypeError ''Cannot destructure property url of patchData.secureDownloadData'')
      | Some sd \<Rightarrow>
          io_bind
            (if wants_contents options
             then io_call Connection (download_request sd) (connection_text env)
             else io_return [])
            (\<lambda>contents. io_return (patch_data patchData contents)))"

definition getPatches ::
  "env \<Rightarrow> string \<Rightarrow> patches_options option \<Rightarrow> cloud_patch_data option list io" where
  "getPatches env ident options =
     io_bind (io_call Connection (patches_request env ident) (get_patches env))
       (\<lambda>patchesData.
          case patchesData of
            None \<Rightarrow> io_throw (TypeError ''Cannot read properties of undefined (reading map)'')
          | Some rows \<Rightarrow>
              io_bind (allSettled (map (patch_task env options) rows))
                (\<lambda>patches. io_return (map getSettledValue patches)))"

definition getPatch :: "env \<Rightarrow> string \<Rightarrow> cloud_patch_data io" where
  "getPatch env ident =
     io_bind (io_call Connection (patch_request env ident) (get_patch env))
       (\<lambda>patchData.
          case patchData of
            None \<Rightarrow> io_throw (TypeError ''Cannot destructure property draftId of patchData'')
          | Some row \<Rightarrow>
              (case pr_secureDownloadData row of
                 None \<Rightarrow> io_throw
                   (TypeError ''Cannot destructure property url of patchData.secureDownloadData'')
               | Some sd \<Rightarrow>
                   io_bind (io_call NodeFetch (download_request sd) (node_fetch_text env))
                     (\<lambda>contents.
                        io_return
                          \<lparr>cpd_id = ident,
                           cpd_draftId = pr_draftId row,
                           cpd_gitProfileId = pr_gitProfileId row,
                           cpd_gitRepositoryName = pr_gitRepositoryName row,
                           cpd_gitBranchName = pr_gitBranchName row,
                           cpd_contents = contents\<rparr>)))"

definition getPatchContents :: "env \<Rightarrow> string \<Rightarrow> string io" where
  "getPatchContents env ident =
     io_bind (io_call Connection (patch_request env ident) (get_patch env))
       (\<lambda>patchData.
          case patchData of
            None \<Rightarrow> io_throw
              (TypeError ''Cannot read properties of undefined (reading secureDownloadData)'')
          | Some row \<Rightarrow>
              (case pr_secureDownloadData row of
                 None \<Rightarrow> io_throw
                   (TypeError ''Cannot destructure property url of patchData.secureDownloadData'')
               | Some sd \<Rightarrow> io_call NodeFetch (download_request sd) (node_fetch_text env)))"

section \<open>A concrete server for the closed theorems\<close>

definition demo_repository :: repository where
  "demo_repository = \<lparr>repo_path = ''/work/demo'', repo_uri = ''file:///work/demo''\<rparr>"

definition demo_provider :: git_provider where
  "demo_provider =
     \<lparr>provider_id = ''github'', provider_path = ''acme/demo'', provider_owner = Some ''acme''\<rparr>"

definition demo_upload :: secure_data where
  "demo_upload =
     \<lparr>sd_url = ''https://blobs.example/put/p1'', sd_method = ''PUT'',
      sd_headers = Some [(''Host'', [''blobs.example''])]\<rparr>"

definition demo_download :: "string \<Rightarrow> secure_data" where
  "demo_download n =
     \<lparr>sd_url = ''https://blobs.example/get/'' @ n, sd_method = ''GET'',
      sd_headers = Some [(''Host'', [''blobs.example''])]\<rparr>"

definition demo_row :: "string \<Rightarrow> patch_row" where
  "demo_row n =
     \<lparr>pr_id = n, pr_draftId = ''d1'', pr_gitProfileId = Some ''me@example.org'',
      pr_gitRepositoryName = Some ''demo'', pr_gitBranchName = Some ''main'',
      pr_secureUploadData = None, pr_secureDownloadData = Some (demo_download n)\<rparr>"

definition demo_created :: changeset_data where
  "demo_created =
     \<lparr>csd_id = ''c1'', csd_createdAt = ''2023-10-01'', csd_updatedAt = ''2023-10-01'',
      csd_draftId = ''d1'', csd_gitProfileId = ''me@example.org'',
      csd_parentChangesetId = ''00000000-0000-0000-0000-000000000000'',
      csd_patches =
        [\<lparr>pr_id = ''p1'', pr_draftId = ''d1'', pr_gitProfileId = None,
          pr_gitRepositoryName = None, pr_gitBranchName = None,
          pr_secureUploadData = Some demo_upload, pr_secureDownloadData = None\<rparr>]\<rparr>"

definition demo_draft :: draft_data where
  "demo_draft =
     \<lparr>dd_id = ''d1'', dd_deepLink = ''https://gk.example/d1'', dd_title = None,
      dd_description = None, dd_createdAt = ''2023-10-01'', dd_updatedAt = ''2023-10-01'',
      dd_createdBy = ''u1'', dd_isPublic = False, dd_organizationId = None\<rparr>"

text \<open>A server on which everything succeeds, except the download of patch \<open>p2\<close>.\<close>

definition demo_env :: env where
  "demo_env =
     \<lparr>baseGkApiUri = ''https://api.example'',
      joinPath = (\<lambda>base p. case p of CHR ''/'' # _ \<Rightarrow> base @ p | _ \<Rightarrow> base @ ''/'' @ p),
      getBestRemoteWithProvider = (\<lambda>_. Fulfilled (Some \<lparr>remote_provider = Some demo_provider\<rparr>)),
      getCurrentUser =
        (\<lambda>_. Fulfilled (Some \<lparr>user_email = Some ''me@example.org'', user_name = Some ''Me''\<rparr>)),
      getBranch = (\<lambda>_. Fulfilled (Some \<lparr>branch_name = ''main''\<rparr>)),
      getUniqueRepositoryId = (\<lambda>_. Inr (Some ''1f3a'')),
      post_drafts = (\<lambda>_. Inr (Some ''d1'')),
      get_draft = (\<lambda>_. Inr (Some demo_draft)),
      post_changesets = (\<lambda>_. Inr (Some demo_created)),
      patch_patches = (\<lambda>_. Inr ()),
      get_changesets = (\<lambda>_. Inr (Some [])),
      get_patches = (\<lambda>_. Inr (Some [demo_row ''p1'', demo_row ''p2'', demo_row ''p3''])),
      get_patch = (\<lambda>_. Inr (Some (demo_row ''p1''))),
      connection_text =
        (\<lambda>req. if req_url req = ''https://blobs.example/get/p2''
               then Inl (NetworkError ''503'') else Inr ''diff --git a b''),
      node_fetch_text = (\<lambda>_. Inr ''diff --git a b'')\<rparr>"

text \<open>A patch whose content was never stored: it still has its upload endpoint and has no
  download endpoint yet.\<close>

definition unfinished_row :: patch_row where
  "unfinished_row =
     (demo_row ''p9'')\<lparr>pr_secureUploadData := Some demo_upload, pr_secureDownloadData := None\<rparr>"


text \<open>Variants of the server: no user and no branch; no remote; an empty unique id; a
  changesets answer without \<^verbatim>\<open>data\<close>.\<close>

definition anonymous_env :: env where
  "anonymous_env =
     demo_env\<lparr>getCurrentUser := (\<lambda>_. Rejected (Error ''git config failed'')),
              getBranch := (\<lambda>_. Rejected (Error ''detached HEAD''))\<rparr>"

definition remoteless_env :: env where
  "remoteless_env =
     demo_env\<lparr>getBestRemoteWithProvider := (\<lambda>_. Rejected (Error ''no remotes''))\<rparr>"

text \<open>No user only, and no branch only.\<close>

definition userless_env :: env where
  "userless_env = demo_env\<lparr>getCurrentUser := (\<lambda>_. Rejected (Error ''git config failed''))\<rparr>"

definition branchless_env :: env where
  "branchless_env = demo_env\<lparr>getBranch := (\<lambda>_. Rejected (Error ''detached HEAD''))\<rparr>"

text \<open>What \<^verbatim>\<open>get\<close> reads back from the concrete server, and the patch of the created
  changeset.\<close>

definition demo_read_draft :: "patch_row cloud_patch" where
  "demo_read_draft =
     \<lparr>cp_id = ''d1'', cp_linkUrl = ''https://gk.example/d1'', cp_title = None,
      cp_description = None, cp_createdAt = Date ''2023-10-01'', cp_updatedAt = Date ''2023-10-01'',
      cp_createdBy = ''u1'', cp_isPublic = False, cp_organizationId = None, cp_changesets = []\<rparr>"

definition demo_created_patch :: patch_row where
  "demo_created_patch =
     \<lparr>pr_id = ''p1'', pr_draftId = ''d1'', pr_gitProfileId = None,
      pr_gitRepositoryName = None, pr_gitBranchName = None,
      pr_secureUploadData = Some demo_upload, pr_secureDownloadData = None\<rparr>"

definition empty_id_env :: env where
  "empty_id_env = demo_env\<lparr>getUniqueRepositoryId := (\<lambda>_. Inr (Some []))\<rparr>"

definition no_changesets_env :: env where
  "no_changesets_env = demo_env\<lparr>get_changesets := (\<lambda>_. Inr None)\<rparr>"

section \<open>The patch details webview\<close>

subsection \<open>Patches, the view context and the state of the provider\<close>

record git_file =
  gf_status :: string
  gf_repoPath :: string
  gf_path :: string
  gf_originalPath :: "string option"

record git_commit =
  commit_sha :: string

datatype patch_kind = FileKind | CloudKind

text \<open>The members of \<^verbatim>\<open>GitPatch\<close> and \<^verbatim>\<open>GitCloudPatch\<close> the webview reads and writes.
  The webview tests \<^verbatim>\<open>patch.repo == null\<close> for both, so \<open>gp_repo\<close> is optional.\<close>

record git_patch =
  gp_type :: patch_kind
  gp_contents :: string
  gp_baseRef :: "string option"
  gp_files :: "git_file list option"
  gp_repo :: "repository option"
  gp_commit :: "git_commit option"

datatype patchset = LocalPatch git_patch | CloudPatch "git_patch cloud_patch"

text \<open>
  Patch objects are mutated in place and shared between the committed context, the
  pending overlay and the callbacks that were scheduled for them. A patch set is
  therefore an address into a store, and the context holds addresses.
\<close>

type_synonym ref = nat

record files_config =
  fc_compact :: bool
  fc_icon :: string
  fc_layout :: string
  fc_threshold :: nat

record preferences =
  pref_avatars :: bool
  pref_dateFormat :: string
  pref_files :: files_config
  pref_indentGuides :: string

record view_context =
  ctx_patch :: "ref option"
  ctx_preferences :: preferences
  ctx_visible :: bool

text \<open>\<^verbatim>\<open>Partial<Context>\<close>: a member is absent (\<open>None\<close>) or present; a present \<open>patch\<close> may
  be \<^verbatim>\<open>undefined\<close>.\<close>

record pending_context =
  pend_patch :: "ref option option"
  pend_preferences :: "preferences option"
  pend_visible :: "bool option"

record file_entry =
  fe_path :: string
  fe_originalPath :: "string option"
  fe_status :: string
  fe_repoPath :: string
  fe_icon_dark :: string
  fe_icon_light :: string

record cloud_details =
  cd_repoPath :: string
  cd_author_name :: string
  cd_author_email :: string
  cd_files :: "file_entry list option"
  cd_createdAt :: string
  cd_updatedAt :: string

datatype patch_details = LocalDetails "file_entry list option" | CloudDetails cloud_details

record webview_state =
  st_webviewId :: string
  st_timestamp :: nat
  st_patch :: "patch_details option"
  st_preferences :: preferences

datatype ui_event =
    RepositoryPicker string string
  | CommitPicker string string string
  | ErrorMessage string

text \<open>
  The collaborators of the webview, as parameters: the git facade, the two quick picks
  (their answer is the user's choice, \<open>None\<close> when the pick is declined) and the host.
  \<open>getDiffFiles\<close> stands for \<^verbatim>\<open>(await git.getDiffFiles(...))?.files\<close>; \<open>image_uri\<close> for the
  webview uri of \<^verbatim>\<open>images/<theme>/<icon>\<close>.
\<close>

record host =
  host_id :: string
  getDiffFiles :: "string \<Rightarrow> string \<Rightarrow> error + git_file list option"
  getGitFileStatusIcon :: "string \<Rightarrow> string"
  image_uri :: "string \<Rightarrow> string \<Rightarrow> string"
  getRepositoryOrShowPicker :: "string \<Rightarrow> string \<Rightarrow> repository option"
  showCommitPicker :: "string \<Rightarrow> string \<Rightarrow> string \<Rightarrow> git_commit option"
  createUnreachableCommitForPatch :: "string \<Rightarrow> string \<Rightarrow> string \<Rightarrow> string \<Rightarrow> error + git_commit"

text \<open>
  The provider: its two contexts, the deadline of the armed debounce timer (in
  milliseconds of \<open>clock\<close>), the store of patch sets, the queue of \<^verbatim>\<open>setTimeout\<close>
  callbacks of \<^verbatim>\<open>getDetailsModel\<close> (each is the patch set it closed over), and what the
  provider did to the outside: the states it notified, what it showed, what it logged.
\<close>

record provider =
  this_context :: view_context
  this_pendingContext :: "pending_context option"
  debounceTimer :: "nat option"
  heap :: "ref \<Rightarrow> patchset"
  timeouts :: "ref list"
  clock :: nat
  notifications :: "webview_state list"
  shown :: "ui_event list"
  logged :: "error list"

subsection \<open>The pending overlay\<close>

text \<open>The spread \<^verbatim>\<open>{ ...context, ...pending }\<close>.\<close>

definition spread :: "view_context \<Rightarrow> pending_context \<Rightarrow> view_context" where
  "spread c p =
     \<lparr>ctx_patch = (case pend_patch p of None \<Rightarrow> ctx_patch c | Some v \<Rightarrow> v),
      ctx_preferences = (case pend_preferences p of None \<Rightarrow> ctx_preferences c | Some v \<Rightarrow> v),
      ctx_visible = (case pend_visible p of None \<Rightarrow> ctx_visible c | Some v \<Rightarrow> v)\<rparr>"

definition empty_pending :: pending_context where
  "empty_pending = \<lparr>pend_patch = None, pend_preferences = None, pend_visible = None\<rparr>"

text \<open>
  Modelled from the spec: \<^verbatim>\<open>updatePendingContext\<close> of \<^verbatim>\<open>webviews/webviewController\<close> is
  imported by the provider but is not among the sources. The spec: it shallow-merges
  the partial into the pending overlay and returns whether anything actually changed
  (value equality per touched field); \<^verbatim>\<open>force\<close> bypasses the change detection. A touched
  member is written into the overlay unless its value is the one the member already
  has, in the overlay or else in the committed context.
\<close>

definition merge_field :: "bool \<Rightarrow> 'a \<Rightarrow> 'a option \<Rightarrow> 'a option \<Rightarrow> bool \<times> 'a option" where
  "merge_field force current pending update =
     (case update of
        None \<Rightarrow> (False, pending)
      | Some v \<Rightarrow>
          if \<not> force \<and> v = (case pending of None \<Rightarrow> current | Some w \<Rightarrow> w)
          then (False, pending)
          else (True, Some v))"

definition controller_updatePendingContext ::
  "view_context \<Rightarrow> pending_context option \<Rightarrow> pending_context \<Rightarrow> bool \<Rightarrow>
   bool \<times> pending_context option" where
  "controller_updatePendingContext current pending update force =
     (let p = (case pending of None \<Rightarrow> empty_pending | Some q \<Rightarrow> q);
          f1 = merge_field force (ctx_patch current) (pend_patch p) (pend_patch update);
          f2 = merge_field force (ctx_preferences current) (pend_preferences p)
                 (pend_preferences update);
          f3 = merge_field force (ctx_visible current) (pend_visible p) (pend_visible update);
          changed = (fst f1 \<or> fst f2 \<or> fst f3)
      in (changed,
          if changed
          then Some \<lparr>pend_patch = snd f1, pend_preferences = snd f2, pend_visible = snd f3\<rparr>
          else pending))"

text \<open>The private method of the provider.\<close>

definition updatePendingContext :: "pending_context \<Rightarrow> bool \<Rightarrow> provider \<Rightarrow> bool \<times> provider" where
  "updatePendingContext update force s =
     (case controller_updatePendingContext (this_context s) (this_pendingContext s) update force of
        (changed, pending) \<Rightarrow>
          (changed, if changed then s\<lparr>this_pendingContext := pending\<rparr> else s))"

text \<open>The context the webview should have.\<close>

definition effective :: "provider \<Rightarrow> view_context" where
  "effective s =
     (case this_pendingContext s of None \<Rightarrow> this_context s | Some p \<Rightarrow> spread (this_context s) p)"

subsection \<open>getDetailsModel and getState\<close>

text \<open>\<^verbatim>\<open>patchset.patch\<close>, or \<^verbatim>\<open>patchset.changesets[0].patches[0]\<close> followed by the first read
  of a member of the patch: a missing changeset or patch is a \<^verbatim>\<open>TypeError\<close>.\<close>

definition inner_patch :: "patchset \<Rightarrow> error + git_patch" where
  "inner_patch ps =
     (case ps of
        LocalPatch p \<Rightarrow> Inr p
      | CloudPatch cp \<Rightarrow>
          (case cp_changesets cp of
             [] \<Rightarrow> Inl (TypeError ''Cannot read properties of undefined'')
           | cs # _ \<Rightarrow>
               (case cs_patches cs of
                  [] \<Rightarrow> Inl (TypeError ''Cannot read properties of undefined'')
                | p # _ \<Rightarrow> Inr p)))"

definition map_inner :: "(git_patch \<Rightarrow> git_patch) \<Rightarrow> patchset \<Rightarrow> patchset" where
  "map_inner f ps =
     (case ps of
        LocalPatch p \<Rightarrow> LocalPatch (f p)
      | CloudPatch cp \<Rightarrow>
          (case cp_changesets cp of
             [] \<Rightarrow> ps
           | cs # css \<Rightarrow>
               (case cs_patches cs of
                  [] \<Rightarrow> ps
                | p # pp \<Rightarrow> CloudPatch (cp\<lparr>cp_changesets := cs\<lparr>cs_patches := f p # pp\<rparr> # css\<rparr>))))"

text \<open>An assignment to a member of the patch of the patch set at \<open>r\<close>.\<close>

definition set_inner :: "ref \<Rightarrow> (git_patch \<Rightarrow> git_patch) \<Rightarrow> provider \<Rightarrow> provider" where
  "set_inner r f s = s\<lparr>heap := (heap s)(r := map_inner f (heap s r))\<rparr>"

definition file_entry_of :: "host \<Rightarrow> git_file \<Rightarrow> file_entry" where
  "file_entry_of host f =
     \<lparr>fe_path = gf_path f,
      fe_originalPath = gf_originalPath f,
      fe_status = gf_status f,
      fe_repoPath = gf_repoPath f,
      fe_icon_dark = image_uri host ''dark'' (getGitFileStatusIcon host (gf_status f)),
      fe_icon_light = image_uri host ''light'' (getGitFileStatusIcon host (gf_status f))\<rparr>"

text \<open>\<^verbatim>\<open>date.getTime()\<close>; the time in milliseconds is kept as the date it is read from.\<close>

definition getTime :: "js_time \<Rightarrow> error + string" where
  "getTime t =
     (case t of
        Date d \<Rightarrow> Inr d
      | RawTime _ \<Rightarrow> Inl (TypeError ''getTime is not a function''))"

text \<open>What \<^verbatim>\<open>getDetailsModel\<close> returns, after its \<^verbatim>\<open>setTimeout\<close>.\<close>

definition details :: "host \<Rightarrow> patchset \<Rightarrow> git_patch \<Rightarrow> error + patch_details" where
  "details host patchset patch =
     (let files = map_option (map (file_entry_of host)) (gp_files patch)
      in case patchset of
           LocalPatch _ \<Rightarrow> Inr (LocalDetails files)
         | CloudPatch cp \<Rightarrow>
             if gp_type patch = FileKind then Inr (LocalDetails files)
             else
               (case gp_repo patch of
                  None \<Rightarrow> Inl (TypeError ''Cannot read properties of undefined (reading path)'')
                | Some repo \<Rightarrow>
                    (case getTime (cp_createdAt cp) of
                       Inl e \<Rightarrow> Inl e
                     | Inr created \<Rightarrow>
                         (case getTime (cp_updatedAt cp) of
                            Inl e \<Rightarrow> Inl e
                          | Inr updated \<Rightarrow>
                              Inr (CloudDetails
                                \<lparr>cd_repoPath = repo_path repo,
                                 cd_author_name = ''You'',
                                 cd_author_email = ''no@way.com'',
                                 cd_files = files,
                                 cd_createdAt = created,
                                 cd_updatedAt = updated\<rparr>)))))"

definition getDetailsModel :: "host \<Rightarrow> ref \<Rightarrow> provider \<Rightarrow> (error + patch_details) \<times> provider" where
  "getDetailsModel host patchset s =
     (case inner_patch (heap s patchset) of
        Inl e \<Rightarrow> (Inl e, s)
      | Inr patch \<Rightarrow>
          (details host (heap s patchset) patch,
           if gp_files patch = None then s\<lparr>timeouts := timeouts s @ [patchset]\<rparr> else s))"

text \<open>\<^verbatim>\<open>getState\<close>; the cancellation token source is never assigned, \<^verbatim>\<open>serialize\<close> keeps
  the members, \<^verbatim>\<open>Date.now()\<close> reads the clock.\<close>

definition getState :: "host \<Rightarrow> view_context \<Rightarrow> provider \<Rightarrow> (error + webview_state) \<times> provider" where
  "getState host current s =
     (case ctx_patch current of
        None \<Rightarrow>
          (Inr \<lparr>st_webviewId = host_id host, st_timestamp = clock s, st_patch = None,
                st_preferences = ctx_preferences current\<rparr>, s)
      | Some patchset \<Rightarrow>
          (case getDetailsModel host patchset s of
             (Inl e, s') \<Rightarrow> (Inl e, s')
           | (Inr d, s') \<Rightarrow>
               (Inr \<lparr>st_webviewId = host_id host, st_timestamp = clock s', st_patch = Some d,
                     st_preferences = ctx_preferences current\<rparr>, s')))"

subsection \<open>notifyDidChangeState and updateState\<close>

text \<open>
  The result is \<open>Some False\<close> for \<^verbatim>\<open>return false\<close> and \<open>None\<close> for the result of
  \<^verbatim>\<open>withProgress\<close>. An exception of \<^verbatim>\<open>getState\<close> is caught and logged, and then nothing
  is notified; \<^verbatim>\<open>host.notify\<close> itself is taken to deliver.
\<close>

definition notifyDidChangeState :: "host \<Rightarrow> bool \<Rightarrow> provider \<Rightarrow> bool option \<times> provider" where
  "notifyDidChangeState host force s =
     (let s0 = s\<lparr>debounceTimer := None\<rparr>
      in if \<not> force \<and> this_pendingContext s0 = None then (Some False, s0)
         else
           (let s1 = (case this_pendingContext s0 of
                        Some pending \<Rightarrow>
                          s0\<lparr>this_context := spread (this_context s0) pending,
                             this_pendingContext := None\<rparr>
                      | None \<Rightarrow> s0)
            in case getState host (this_context s1) s1 of
                 (Inr state, s2) \<Rightarrow> (None, s2\<lparr>notifications := notifications s2 @ [state]\<rparr>)
               | (Inl ex, s2) \<Rightarrow> (None, s2\<lparr>logged := logged s2 @ [ex]\<rparr>)))"

text \<open>
  Modelled from the spec: \<^verbatim>\<open>debounce\<close> of \<^verbatim>\<open>system/function\<close> is imported by the provider
  but is not among the sources. The spec: repeated calls within a fixed window are
  coalesced, trailing-edge, and the window restarts on each call. A call arms the timer
  for \<open>wait\<close> milliseconds from now, replacing an armed one; \<^verbatim>\<open>cancel\<close> disarms it; the
  function runs when the deadline is reached.
\<close>

definition debounce_call :: "nat \<Rightarrow> provider \<Rightarrow> provider" where
  "debounce_call wait s = s\<lparr>debounceTimer := Some (clock s + wait)\<rparr>"

definition updateState :: "host \<Rightarrow> bool \<Rightarrow> provider \<Rightarrow> provider" where
  "updateState host immediate s =
     (if immediate then snd (notifyDidChangeState host False s) else debounce_call 500 s)"

text \<open>Time passes by \<open>d\<close> milliseconds: an armed debounce timer whose deadline is reached
  runs \<^verbatim>\<open>notifyDidChangeState()\<close> at its deadline.\<close>

definition elapse :: "host \<Rightarrow> nat \<Rightarrow> provider \<Rightarrow> provider" where
  "elapse host d s =
     (case debounceTimer s of
        None \<Rightarrow> s\<lparr>clock := clock s + d\<rparr>
      | Some deadline \<Rightarrow>
          if deadline \<le> clock s + d
          then (snd (notifyDidChangeState host False (s\<lparr>clock := max (clock s) deadline\<rparr>)))
                 \<lparr>clock := clock s + d\<rparr>
          else s\<lparr>clock := clock s + d\<rparr>)"

text \<open>The callback \<^verbatim>\<open>getDetailsModel\<close> hands to \<^verbatim>\<open>setTimeout\<close>, for the oldest queued patch
  set. A rejected \<^verbatim>\<open>getDiffFiles\<close> ends the callback.\<close>

definition run_timeout :: "host \<Rightarrow> provider \<Rightarrow> provider" where
  "run_timeout host s =
     (case timeouts s of
        [] \<Rightarrow> s
      | patchset # rest \<Rightarrow>
          (let s1 = s\<lparr>timeouts := rest\<rparr>
           in case inner_patch (heap s1 patchset) of
                Inl _ \<Rightarrow> s1
              | Inr patch \<Rightarrow>
                  (case getDiffFiles host [] (gp_contents patch) of
                     Inl _ \<Rightarrow> s1
                   | Inr files \<Rightarrow>
                       (let s2 = set_inner patchset (\<lambda>p. p\<lparr>gp_files := files\<rparr>) s1;
                            s3 = snd (updatePendingContext
                                        (empty_pending\<lparr>pend_patch := Some (Some patchset)\<rparr>) True s2)
                        in updateState host False s3))))"

text \<open>A burst of updates: before each, some time passes; each is
  \<^verbatim>\<open>updatePendingContext(partial, force)\<close> followed by \<^verbatim>\<open>updateState()\<close>.\<close>

fun burst :: "host \<Rightarrow> (nat \<times> pending_context \<times> bool) list \<Rightarrow> provider \<Rightarrow> provider" where
  "burst host [] s = s"
| "burst host ((gap, partial, force) # rest) s =
     burst host rest
       (updateState host False (snd (updatePendingContext partial force (elapse host gap s))))"

subsection \<open>getUnreachablePatchCommit\<close>

definition message_of :: "error \<Rightarrow> string" where
  "message_of ex = (case ex of Error m \<Rightarrow> m | TypeError m \<Rightarrow> m | NetworkError m \<Rightarrow> m)"

definition quoted :: "string \<Rightarrow> string" where
  "quoted s = CHR 0x27 # s @ [CHR 0x27]"

text \<open>What the two quick picks and the error message show.\<close>

definition repository_title :: string where
  "repository_title = ''Patch Details: Select Repository''"

definition repository_placeholder :: string where
  "repository_placeholder = ''Choose which repository this patch belongs to''"

definition repository_prompt :: ui_event where
  "repository_prompt = RepositoryPicker repository_title repository_placeholder"

definition base_title :: string where
  "base_title = ''Patch Details: Select Base''"

definition base_placeholder :: string where
  "base_placeholder =
     ''Choose the base which this patch was created from or should be applied to''"

definition base_prompt :: "repository \<Rightarrow> ui_event" where
  "base_prompt repo = CommitPicker (repo_uri repo) base_title base_placeholder"

definition preview_error :: "string option \<Rightarrow> error \<Rightarrow> ui_event" where
  "preview_error baseRef ex =
     ErrorMessage
       (''Unable preview the patch on base '' @
        quoted (case baseRef of Some b \<Rightarrow> b | None \<Rightarrow> ''undefined'') @
        '': '' @ message_of ex)"

text \<open>The last step: \<^verbatim>\<open>if (patch.commit == null) { try ... catch ... } return patch.commit\<close>.\<close>

definition materialize ::
  "host \<Rightarrow> ref \<Rightarrow> git_patch \<Rightarrow> provider \<Rightarrow> (error + git_commit option) \<times> provider" where
  "materialize host r patch s =
     (case gp_commit patch of
        Some c \<Rightarrow> (Inr (Some c), s)
      | None \<Rightarrow>
          (case gp_repo patch of
             None \<Rightarrow> (Inl (TypeError ''Cannot read properties of undefined (reading uri)''), s)
           | Some repo \<Rightarrow>
               (case createUnreachableCommitForPatch host (repo_uri repo) (gp_contents patch)
                       (case gp_baseRef patch of Some b \<Rightarrow> b | None \<Rightarrow> ''HEAD'') ''PATCH'' of
                  Inr commit \<Rightarrow>
                    (Inr (Some commit), set_inner r (\<lambda>p. p\<lparr>gp_commit := Some commit\<rparr>) s)
                | Inl ex \<Rightarrow>
                    (Inr None,
                     set_inner r (\<lambda>p. p\<lparr>gp_baseRef := None\<rparr>)
                       (s\<lparr>shown := shown s @
                            [preview_error (gp_baseRef patch) ex]\<rparr>)))))"

text \<open>The middle step: \<^verbatim>\<open>if (patch.baseRef == null) { ... }\<close>.\<close>

definition choose_base ::
  "host \<Rightarrow> ref \<Rightarrow> git_patch \<Rightarrow> provider \<Rightarrow> (error + git_commit option) \<times> provider" where
  "choose_base host r patch s =
     (case gp_baseRef patch of
        Some _ \<Rightarrow> materialize host r patch s
      | None \<Rightarrow>
          (case gp_repo patch of
             None \<Rightarrow> (Inl (TypeError ''Cannot read properties of undefined (reading uri)''), s)
           | Some repo \<Rightarrow>
               (let s1 = s\<lparr>shown := shown s @ [base_prompt repo]\<rparr>
                in case showCommitPicker host (repo_uri repo) base_title base_placeholder of
                     None \<Rightarrow> (Inr None, s1)
                   | Some pick \<Rightarrow>
                       materialize host r (patch\<lparr>gp_baseRef := Some (commit_sha pick)\<rparr>)
                         (set_inner r (\<lambda>p. p\<lparr>gp_baseRef := Some (commit_sha pick)\<rparr>) s1))))"

text \<open>The first step: \<^verbatim>\<open>if (patch.repo == null) { ... }\<close>.\<close>

definition choose_repo ::
  "host \<Rightarrow> ref \<Rightarrow> git_patch \<Rightarrow> provider \<Rightarrow> (error + git_commit option) \<times> provider" where
  "choose_repo host r patch s =
     (case gp_repo patch of
        Some _ \<Rightarrow> choose_base host r patch s
      | None \<Rightarrow>
          (let s1 = s\<lparr>shown := shown s @ [repository_prompt]\<rparr>
           in case getRepositoryOrShowPicker host repository_title repository_placeholder of
                None \<Rightarrow> (Inr None, s1)
              | Some pick \<Rightarrow>
                  choose_base host r (patch\<lparr>gp_repo := Some pick\<rparr>)
                    (set_inner r (\<lambda>p. p\<lparr>gp_repo := Some pick\<rparr>) s1)))"

definition getUnreachablePatchCommit ::
  "host \<Rightarrow> provider \<Rightarrow> (error + git_commit option) \<times> provider" where
  "getUnreachablePatchCommit host s =
     (case ctx_patch (this_context s) of
        None \<Rightarrow> (Inl (Error ''Invalid patch type''), s)
      | Some r \<Rightarrow>
          (case inner_patch (heap s r) of
             Inl e \<Rightarrow> (Inl e, s)
           | Inr patch \<Rightarrow> choose_repo host r patch s))"

subsection \<open>Notions the statements use\<close>

text \<open>The provider right after the pending overlay was committed.\<close>

definition flushed :: "provider \<Rightarrow> provider" where
  "flushed s =
     s\<lparr>debounceTimer := None, this_context := effective s, this_pendingContext := None\<rparr>"

text \<open>The \<^verbatim>\<open>files\<close> member of a details object.\<close>

definition details_files :: "patch_details \<Rightarrow> file_entry list option" where
  "details_files d = (case d of LocalDetails fs \<Rightarrow> fs | CloudDetails c \<Rightarrow> cd_files c)"

text \<open>The partials of a burst, spread one after the other over a context.\<close>

definition merged :: "view_context \<Rightarrow> (nat \<times> pending_context \<times> bool) list \<Rightarrow> view_context" where
  "merged c calls = foldl (\<lambda>c call. spread c (fst (snd call))) c calls"

text \<open>One call of a burst. A provider is quiet when its debounce timer is not armed or
  was armed just now.\<close>

definition call_step :: "host \<Rightarrow> nat \<times> pending_context \<times> bool \<Rightarrow> provider \<Rightarrow> provider" where
  "call_step host call s =
     updateState host False
       (snd (updatePendingContext (fst (snd call)) (snd (snd call)) (elapse host (fst call) s)))"

definition quiet :: "provider \<Rightarrow> bool" where
  "quiet s = (debounceTimer s = None \<or> debounceTimer s = Some (clock s + 500))"

subsection \<open>A concrete webview for the closed theorems\<close>

definition demo_file :: git_file where
  "demo_file =
     \<lparr>gf_status = ''M'', gf_repoPath = ''/work/demo'', gf_path = ''src/a.ts'',
      gf_originalPath = None\<rparr>"

text \<open>A host whose user declines every pick and whose git cannot apply the patch.\<close>

definition demo_host :: host where
  "demo_host =
     \<lparr>host_id = ''gitlens.views.patchDetails'',
      getDiffFiles = (\<lambda>_ _. Inr (Some [demo_file])),
      getGitFileStatusIcon = (\<lambda>status. ''icon-status-'' @ status @ ''.svg''),
      image_uri = (\<lambda>theme icon. ''images/'' @ theme @ ''/'' @ icon),
      getRepositoryOrShowPicker = (\<lambda>_ _. None),
      showCommitPicker = (\<lambda>_ _ _. None),
      createUnreachableCommitForPatch = (\<lambda>_ _ _ _. Inl (Error ''patch does not apply''))\<rparr>"

definition demo_patch :: git_patch where
  "demo_patch =
     \<lparr>gp_type = FileKind, gp_contents = ''diff --git a b'', gp_baseRef = None,
      gp_files = None, gp_repo = None, gp_commit = None\<rparr>"

definition demo_preferences :: preferences where
  "demo_preferences =
     \<lparr>pref_avatars = True, pref_dateFormat = ''MMMM Do, YYYY h:mma'',
      pref_files = \<lparr>fc_compact = True, fc_icon = ''type'', fc_layout = ''auto'', fc_threshold = 5\<rparr>,
      pref_indentGuides = ''onHover''\<rparr>"

text \<open>An idle provider that shows the local patch at address \<open>0\<close>.\<close>

definition idle_view :: provider where
  "idle_view =
     \<lparr>this_context =
        \<lparr>ctx_patch = Some 0, ctx_preferences = demo_preferences, ctx_visible = False\<rparr>,
      this_pendingContext = None,
      debounceTimer = None,
      heap = (\<lambda>_. LocalPatch demo_patch),
      timeouts = [],
      clock = 0,
      notifications = [],
      shown = [],
      logged = []\<rparr>"




text \<open>The idle provider after a repository was chosen, and after a base was chosen too.\<close>

definition repo_view :: provider where
  "repo_view = idle_view\<lparr>heap := (\<lambda>_. LocalPatch (demo_patch\<lparr>gp_repo := Some demo_repository\<rparr>))\<rparr>"

definition based_view :: provider where
  "based_view =
     idle_view\<lparr>heap := (\<lambda>_. LocalPatch
       (demo_patch\<lparr>gp_repo := Some demo_repository, gp_baseRef := Some ''abc''\<rparr>))\<rparr>"

text \<open>The idle provider after \<^verbatim>\<open>getDetailsModel\<close> ran once for its patch.\<close>

definition awaiting_files :: provider where
  "awaiting_files = snd (getDetailsModel demo_host 0 idle_view)"

text \<open>Three updates, 100 ms and 499 ms apart.\<close>

definition demo_calls :: "(nat \<times> pending_context \<times> bool) list" where
  "demo_calls =
     [(0, empty_pending\<lparr>pend_visible := Some True\<rparr>, False),
      (100, empty_pending\<lparr>pend_patch := Some None\<rparr>, False),
      (499, empty_pending\<lparr>pend_visible := Some False\<rparr>, False)]"

section \<open>Properties of the cloud patch service\<close>

lemmas io_defs = io_bind_def io_call_def io_return_def io_throw_def io_await_def

lemmas demo_defs = demo_env_def demo_repository_def demo_provider_def demo_upload_def
  demo_download_def demo_row_def demo_created_def demo_draft_def

lemma fst_io_bind:
  "fst (io_bind m f) = fst m @ (case snd m of Inl e \<Rightarrow> [] | Inr x \<Rightarrow> fst (f x))"
  by (cases m) (auto simp: io_bind_def split: sum.splits prod.splits)

lemma snd_io_bind:
  "snd (io_bind m f) = (case snd m of Inl e \<Rightarrow> Inl e | Inr x \<Rightarrow> snd (f x))"
  by (cases m) (auto simp: io_bind_def split: sum.splits prod.splits)

lemma io_bind_Inr: "io_bind (tr, Inr x) f = (tr @ fst (f x), snd (f x))"
  by (simp add: io_bind_def split: prod.splits)

lemma io_bind_Inl: "io_bind (tr, Inl e) f = (tr, Inl e)"
  by (simp add: io_bind_def)

lemma snd_patch_task:
  "snd (patch_task env options row) =
     (case pr_secureDownloadData row of
        None \<Rightarrow> Inl (TypeError ''Cannot destructure property url of patchData.secureDownloadData'')
      | Some sd \<Rightarrow>
          (if wants_contents options
           then (case connection_text env (download_request sd) of
                   Inl e \<Rightarrow> Inl e
                 | Inr contents \<Rightarrow> Inr (patch_data row contents))
           else Inr (patch_data row [])))"
  by (simp add: patch_task_def io_defs split: option.splits sum.splits)

lemma fst_patch_task:
  "fst (patch_task env options row) =
     (case pr_secureDownloadData row of
        None \<Rightarrow> []
      | Some sd \<Rightarrow> if wants_contents options then [(Connection, download_request sd)] else [])"
  by (simp add: patch_task_def io_defs split: option.splits sum.splits)

lemma getSettledValue_settle:
  "getSettledValue (settle m) = (case snd m of Inl e \<Rightarrow> None | Inr x \<Rightarrow> Some x)"
  by (simp add: getSettledValue_def settle_def split: sum.splits)

lemma getPatches_listed:
  assumes "get_patches env (patches_request env ident) = Inr (Some rows)"
  shows "getPatches env ident options =
         ((Connection, patches_request env ident) # concat (map (\<lambda>row. fst (patch_task env options row)) rows),
          Inr (map (\<lambda>row. case snd (patch_task env options row) of Inl e \<Rightarrow> None | Inr d \<Rightarrow> Some d) rows))"
  using assms
  by (simp add: getPatches_def io_call_def io_return_def allSettled_def io_bind_Inr
      getSettledValue_settle comp_def)

text \<open>
  C3. Whatever rows the draft-patches endpoint lists, \<^verbatim>\<open>getPatches\<close> fulfils with a list of
  the same length in the same order. Entry \<open>i\<close> is decided by row \<open>i\<close> alone: it is absent
  exactly when the task of that row failed, and it carries the downloaded text when the
  download of that row succeeded. No failure of a download fails the call.
\<close>

theorem getPatches_isolation:
  assumes "get_patches env (patches_request env ident) = Inr (Some rows)"
  shows "\<exists>res. snd (getPatches env ident options) = Inr res \<and> length res = length rows \<and>
           (\<forall>i<length rows.
              res ! i = (case snd (patch_task env options (rows ! i)) of
                           Inl e \<Rightarrow> None | Inr d \<Rightarrow> Some d) \<and>
              (\<forall>sd. wants_contents options \<longrightarrow> pr_secureDownloadData (rows ! i) = Some sd \<longrightarrow>
                 res ! i = (case connection_text env (download_request sd) of
                              Inl e \<Rightarrow> None
                            | Inr contents \<Rightarrow> Some (patch_data (rows ! i) contents))))"
  by (simp add: getPatches_listed[OF assms] snd_patch_task split: sum.splits)

theorem getPatches_isolation_witness:
  "get_patches demo_env (patches_request demo_env ''d1'') =
     Inr (Some [demo_row ''p1'', demo_row ''p2'', demo_row ''p3'']) \<and>
   snd (getPatches demo_env ''d1'' (Some \<lparr>includeContents = Some True\<rparr>)) =
     Inr [Some (patch_data (demo_row ''p1'') ''diff --git a b''), None,
          Some (patch_data (demo_row ''p3'') ''diff --git a b'')]"
proof -
  have h: "get_patches demo_env (patches_request demo_env ''d1'') =
     Inr (Some [demo_row ''p1'', demo_row ''p2'', demo_row ''p3''])"
    by (simp add: demo_env_def)
  obtain res where r: "snd (getPatches demo_env ''d1'' (Some \<lparr>includeContents = Some True\<rparr>)) = Inr res"
    and l: "length res = 3"
    and n: "\<forall>i<3. res ! i = (case snd (patch_task demo_env (Some \<lparr>includeContents = Some True\<rparr>)
                ([demo_row ''p1'', demo_row ''p2'', demo_row ''p3''] ! i)) of
                           Inl e \<Rightarrow> None | Inr d \<Rightarrow> Some d)"
    using getPatches_isolation[OF h, of "Some \<lparr>includeContents = Some True\<rparr>"] by auto
  have "res = [res ! 0, res ! 1, res ! 2]"
    using l by (cases res; simp; cases "tl res"; simp; cases "tl (tl res)"; simp)
  moreover have "res ! 0 = Some (patch_data (demo_row ''p1'') ''diff --git a b'')"
    using n by (simp add: snd_patch_task wants_contents_def demo_env_def demo_row_def demo_download_def download_request_def)
  moreover have "res ! 1 = None"
    using n by (simp add: snd_patch_task wants_contents_def demo_env_def demo_row_def demo_download_def download_request_def)
  moreover have "res ! 2 = Some (patch_data (demo_row ''p3'') ''diff --git a b'')"
    using n by (simp add: snd_patch_task wants_contents_def demo_env_def demo_row_def demo_download_def download_request_def)
  ultimately show ?thesis using h r by simp
qed

text \<open>
  C10, as amended. Without \<^verbatim>\<open>includeContents\<close> the listing is the only request
  \<^verbatim>\<open>getPatches\<close> issues. A row that carries \<^verbatim>\<open>secureDownloadData\<close> yields its metadata
  with empty contents; a row without it yields an absent entry at its position, because
  the callback destructures that member before it looks at the option.
\<close>

theorem getPatches_without_contents:
  assumes "\<not> wants_contents options"
    and "get_patches env (patches_request env ident) = Inr (Some rows)"
  shows "getPatches env ident options =
           ([(Connection, patches_request env ident)],
            Inr (map (\<lambda>row. case pr_secureDownloadData row of
                              None \<Rightarrow> None
                            | Some sd \<Rightarrow> Some (patch_data row [])) rows))"
proof -
  have "concat (map (\<lambda>row. fst (patch_task env options row)) rows) = []"
    using assms(1) by (induction rows) (simp_all add: fst_patch_task split: option.splits)
  moreover have "map (\<lambda>row. case snd (patch_task env options row) of Inl e \<Rightarrow> None | Inr d \<Rightarrow> Some d) rows
     = map (\<lambda>row. case pr_secureDownloadData row of
                              None \<Rightarrow> None
                            | Some sd \<Rightarrow> Some (patch_data row [])) rows"
    using assms(1) by (simp add: snd_patch_task split: option.splits)
  ultimately show ?thesis by (simp add: getPatches_listed[OF assms(2)])
qed

text \<open>The claim as stated fails on a draft whose only patch was never finalised: its
  entry is absent, not a patch with empty contents.\<close>

theorem getPatches_without_contents_counterexample:
  "snd (getPatches (demo_env\<lparr>get_patches := (\<lambda>_. Inr (Some [unfinished_row]))\<rparr>) ''d1'' None) = Inr [None]"
  by (simp add: getPatches_def patch_task_def allSettled_def settle_def getSettledValue_def io_defs
      demo_env_def unfinished_row_def demo_row_def)

theorem getPatches_without_contents_witness:
  "\<not> wants_contents None \<and>
   getPatches demo_env ''d1'' None =
     ([(Connection, patches_request demo_env ''d1'')],
      Inr [Some (patch_data (demo_row ''p1'') []), Some (patch_data (demo_row ''p2'') []),
           Some (patch_data (demo_row ''p3'') [])])"
proof -
  have h1: "\<not> wants_contents None" by (simp add: wants_contents_def)
  have h2: "get_patches demo_env (patches_request demo_env ''d1'') =
     Inr (Some [demo_row ''p1'', demo_row ''p2'', demo_row ''p3''])"
    by (simp add: demo_env_def)
  show ?thesis
    using h1 getPatches_without_contents[OF h1 h2] by (simp add: demo_row_def)
qed

lemma resolve_cases:
  "resolve env repository =
     (case found_provider env repository of
        None \<Rightarrow> Inl (Error ''No Git provider found'')
      | Some prov \<Rightarrow>
          Inr \<lparr>res_provider = prov,
               res_gitProfileId =
                 (case getSettledValue (getCurrentUser env (repo_uri repository)) of
                    None \<Rightarrow> []
                  | Some user \<Rightarrow>
                      (case user_email user of
                         Some e \<Rightarrow> e
                       | None \<Rightarrow> (case user_name user of Some n \<Rightarrow> n | None \<Rightarrow> []))),
               res_branchName =
                 (case getSettledValue (getBranch env repository) of
                    None \<Rightarrow> []
                  | Some b \<Rightarrow> branch_name b)\<rparr>)"
  by (cases "getSettledValue (getCurrentUser env (repo_uri repository))")
     (simp_all add: resolve_def found_provider_def Let_def split: option.splits)

lemma create_no_provider:
  "found_provider env repository = None \<Longrightarrow>
   create env repository baseSha contents = ([], Inl (Error ''No Git provider found''))"
  by (simp add: create_def resolve_cases io_throw_def)

lemma create_first_call:
  "found_provider env repository = Some prov \<Longrightarrow>
   \<exists>rest. fst (create env repository baseSha contents) = (Connection, draft_create_request env) # rest"
  by (simp add: create_def resolve_cases fst_io_bind io_call_def)

lemma publish_success:
  assumes "getUniqueRepositoryId env (repo_path repository) = Inr sha"
    and "post_changesets env
           (changeset_create_request env draftId (res_gitProfileId r) baseSha (res_branchName r) sha) =
         Inr (Some created)"
    and "csd_patches created = patch # rest"
    and "pr_secureUploadData patch = Some sd"
    and "node_fetch_text env (upload_request sd contents) = Inr answer"
    and "patch_patches env
           (patch_update_request env (pr_id patch) baseSha (res_gitProfileId r) (res_provider r)
              (res_branchName r)) = Inr u"
  shows "publish env repository baseSha contents r draftId d =
           ([(Connection, changeset_create_request env draftId (res_gitProfileId r) baseSha
                (res_branchName r) sha),
             (NodeFetch, upload_request sd contents),
             (Connection, patch_update_request env (pr_id patch) baseSha (res_gitProfileId r)
                (res_provider r) (res_branchName r))],
            Inr (Some (d\<lparr>cp_changesets := [raw_changeset created]\<rparr>)))"
  using assms by (simp add: publish_def io_defs)

lemma create_resolved:
  assumes "resolve env repository = Inr r"
    and "post_drafts env (draft_create_request env) = Inr (Some draftId)"
    and "snd (get env draftId) = Inr (Some d)"
  shows "create env repository baseSha contents =
           ((Connection, draft_create_request env) # fst (get env draftId) @
              fst (publish env repository baseSha contents r draftId d),
            snd (publish env repository baseSha contents r draftId d))"
proof -
  obtain tr where g: "get env draftId = (tr, Inr (Some d))"
    using assms(3) by (cases "get env draftId") simp
  show ?thesis
    using assms(1,2) by (simp add: create_def io_call_def io_bind_def g split: prod.splits)
qed

text \<open>
  C1. The three settled results are read one by one, each for itself: the provider of
  the remote, the git profile id from the user alone, the branch name from the branch
  alone. \<^verbatim>\<open>create\<close> throws at this point exactly when no provider was found, and then
  before any request. With a provider it goes on whatever became of the user and the
  branch, which degrade to an empty git profile id and an empty branch name; when the
  server answers every later step, \<^verbatim>\<open>create\<close> issues its requests with these values and
  returns the draft with the created changeset.
\<close>

theorem create_resolution:
  "resolve env repository =
     (case found_provider env repository of
        None \<Rightarrow> Inl (Error ''No Git provider found'')
      | Some prov \<Rightarrow>
          Inr \<lparr>res_provider = prov,
               res_gitProfileId =
                 (case getSettledValue (getCurrentUser env (repo_uri repository)) of
                    None \<Rightarrow> []
                  | Some user \<Rightarrow>
                      (case user_email user of
                         Some e \<Rightarrow> e
                       | None \<Rightarrow> (case user_name user of Some n \<Rightarrow> n | None \<Rightarrow> []))),
               res_branchName =
                 (case getSettledValue (getBranch env repository) of
                    None \<Rightarrow> []
                  | Some b \<Rightarrow> branch_name b)\<rparr>) \<and>
   ((\<exists>e. resolve env repository = Inl e) = (found_provider env repository = None)) \<and>
   (found_provider env repository = None \<longrightarrow>
      resolve env repository = Inl (Error ''No Git provider found'') \<and>
      create env repository baseSha contents = ([], Inl (Error ''No Git provider found''))) \<and>
   (\<forall>prov. found_provider env repository = Some prov \<longrightarrow>
      (\<exists>r. resolve env repository = Inr r \<and> res_provider r = prov \<and>
           (getSettledValue (getCurrentUser env (repo_uri repository)) = None \<longrightarrow>
              res_gitProfileId r = []) \<and>
           (getSettledValue (getBranch env repository) = None \<longrightarrow> res_branchName r = [])) \<and>
      (\<exists>rest. fst (create env repository baseSha contents) =
                (Connection, draft_create_request env) # rest)) \<and>
   (\<forall>r draftId d sha created patch rest sd answer.
      resolve env repository = Inr r \<and>
      post_drafts env (draft_create_request env) = Inr (Some draftId) \<and>
      snd (get env draftId) = Inr (Some d) \<and>
      getUniqueRepositoryId env (repo_path repository) = Inr sha \<and>
      post_changesets env
        (changeset_create_request env draftId (res_gitProfileId r) baseSha (res_branchName r) sha) =
        Inr (Some created) \<and>
      csd_patches created = patch # rest \<and>
      pr_secureUploadData patch = Some sd \<and>
      node_fetch_text env (upload_request sd contents) = Inr answer \<and>
      patch_patches env
        (patch_update_request env (pr_id patch) baseSha (res_gitProfileId r) (res_provider r)
           (res_branchName r)) = Inr () \<longrightarrow>
      create env repository baseSha contents =
        ((Connection, draft_create_request env) # fst (get env draftId) @
           [(Connection, changeset_create_request env draftId (res_gitProfileId r) baseSha
               (res_branchName r) sha),
            (NodeFetch, upload_request sd contents),
            (Connection, patch_update_request env (pr_id patch) baseSha (res_gitProfileId r)
               (res_provider r) (res_branchName r))],
         Inr (Some (d\<lparr>cp_changesets := [raw_changeset created]\<rparr>))))"
proof -
  have 1: "resolve env repository =
     (case found_provider env repository of
        None \<Rightarrow> Inl (Error ''No Git provider found'')
      | Some prov \<Rightarrow>
          Inr \<lparr>res_provider = prov,
               res_gitProfileId =
                 (case getSettledValue (getCurrentUser env (repo_uri repository)) of
                    None \<Rightarrow> []
                  | Some user \<Rightarrow>
                      (case user_email user of
                         Some e \<Rightarrow> e
                       | None \<Rightarrow> (case user_name user of Some n \<Rightarrow> n | None \<Rightarrow> []))),
               res_branchName =
                 (case getSettledValue (getBranch env repository) of
                    None \<Rightarrow> []
                  | Some b \<Rightarrow> branch_name b)\<rparr>)"
    by (rule resolve_cases)
  have 2: "((\<exists>e. resolve env repository = Inl e) = (found_provider env repository = None)) \<and>
   (found_provider env repository = None \<longrightarrow>
      resolve env repository = Inl (Error ''No Git provider found'') \<and>
      create env repository baseSha contents = ([], Inl (Error ''No Git provider found''))) \<and>
   (\<forall>prov. found_provider env repository = Some prov \<longrightarrow>
      (\<exists>r. resolve env repository = Inr r \<and> res_provider r = prov \<and>
           (getSettledValue (getCurrentUser env (repo_uri repository)) = None \<longrightarrow>
              res_gitProfileId r = []) \<and>
           (getSettledValue (getBranch env repository) = None \<longrightarrow> res_branchName r = [])) \<and>
      (\<exists>rest. fst (create env repository baseSha contents) =
                (Connection, draft_create_request env) # rest))"
    using create_no_provider[of env repository baseSha contents]
      create_first_call[of env repository _ baseSha contents]
    by (cases "found_provider env repository") (auto simp: resolve_cases)
  have 3: "\<forall>r draftId d sha created patch rest sd answer.
      resolve env repository = Inr r \<and>
      post_drafts env (draft_create_request env) = Inr (Some draftId) \<and>
      snd (get env draftId) = Inr (Some d) \<and>
      getUniqueRepositoryId env (repo_path repository) = Inr sha \<and>
      post_changesets env
        (changeset_create_request env draftId (res_gitProfileId r) baseSha (res_branchName r) sha) =
        Inr (Some created) \<and>
      csd_patches created = patch # rest \<and>
      pr_secureUploadData patch = Some sd \<and>
      node_fetch_text env (upload_request sd contents) = Inr answer \<and>
      patch_patches env
        (patch_update_request env (pr_id patch) baseSha (res_gitProfileId r) (res_provider r)
           (res_branchName r)) = Inr () \<longrightarrow>
      create env repository baseSha contents =
        ((Connection, draft_create_request env) # fst (get env draftId) @
           [(Connection, changeset_create_request env draftId (res_gitProfileId r) baseSha
               (res_branchName r) sha),
            (NodeFetch, upload_request sd contents),
            (Connection, patch_update_request env (pr_id patch) baseSha (res_gitProfileId r)
               (res_provider r) (res_branchName r))],
         Inr (Some (d\<lparr>cp_changesets := [raw_changeset created]\<rparr>)))"
  proof (intro allI impI, elim conjE)
    fix r draftId d sha created patch rest sd answer
    assume a: "resolve env repository = Inr r"
      "post_drafts env (draft_create_request env) = Inr (Some draftId)"
      "snd (get env draftId) = Inr (Some d)"
    assume b: "getUniqueRepositoryId env (repo_path repository) = Inr sha"
      "post_changesets env
        (changeset_create_request env draftId (res_gitProfileId r) baseSha (res_branchName r) sha) =
        Inr (Some created)"
      "csd_patches created = patch # rest"
      "pr_secureUploadData patch = Some sd"
      "node_fetch_text env (upload_request sd contents) = Inr answer"
      "patch_patches env
        (patch_update_request env (pr_id patch) baseSha (res_gitProfileId r) (res_provider r)
           (res_branchName r)) = Inr ()"
    show "create env repository baseSha contents =
        ((Connection, draft_create_request env) # fst (get env draftId) @
           [(Connection, changeset_create_request env draftId (res_gitProfileId r) baseSha
               (res_branchName r) sha),
            (NodeFetch, upload_request sd contents),
            (Connection, patch_update_request env (pr_id patch) baseSha (res_gitProfileId r)
               (res_provider r) (res_branchName r))],
         Inr (Some (d\<lparr>cp_changesets := [raw_changeset created]\<rparr>)))"
      by (simp add: create_resolved[OF a] publish_success[OF b])
  qed
  show ?thesis using 1 2 3 by blast
qed


theorem create_resolution_witness:
  "found_provider remoteless_env demo_repository = None \<and>
   create remoteless_env demo_repository ''abc'' ''diff --git a b'' =
     ([], Inl (Error ''No Git provider found'')) \<and>
   resolve userless_env demo_repository =
     Inr \<lparr>res_provider = demo_provider, res_gitProfileId = [], res_branchName = ''main''\<rparr> \<and>
   resolve branchless_env demo_repository =
     Inr \<lparr>res_provider = demo_provider, res_gitProfileId = ''me@example.org'',
          res_branchName = []\<rparr> \<and>
   resolve anonymous_env demo_repository =
     Inr \<lparr>res_provider = demo_provider, res_gitProfileId = [], res_branchName = []\<rparr> \<and>
   create anonymous_env demo_repository ''abc'' ''diff --git a b'' =
     ((Connection, draft_create_request anonymous_env) # fst (get anonymous_env ''d1'') @
        [(Connection, changeset_create_request anonymous_env ''d1'' [] ''abc'' [] (Some ''1f3a'')),
         (NodeFetch, upload_request demo_upload ''diff --git a b''),
         (Connection, patch_update_request anonymous_env ''p1'' ''abc'' [] demo_provider [])],
      Inr (Some (demo_read_draft\<lparr>cp_changesets := [raw_changeset demo_created]\<rparr>)))"
proof -
  have n: "found_provider remoteless_env demo_repository = None"
    by (simp add: found_provider_def remoteless_env_def demo_env_def getSettledValue_def)
  have 1: "create remoteless_env demo_repository ''abc'' ''diff --git a b'' =
     ([], Inl (Error ''No Git provider found''))"
    using create_resolution[of remoteless_env demo_repository "''abc''" "''diff --git a b''",
        THEN conjunct2, THEN conjunct2, THEN conjunct1] n
    by simp
  have fu: "found_provider userless_env demo_repository = Some demo_provider"
    and fb: "found_provider branchless_env demo_repository = Some demo_provider"
    and fa: "found_provider anonymous_env demo_repository = Some demo_provider"
    by (simp_all add: found_provider_def userless_env_def branchless_env_def anonymous_env_def
        demo_env_def getSettledValue_def)
  have 2: "resolve userless_env demo_repository =
     Inr \<lparr>res_provider = demo_provider, res_gitProfileId = [], res_branchName = ''main''\<rparr>"
    using create_resolution[of userless_env demo_repository "''abc''" "''diff --git a b''",
        THEN conjunct1]
    by (simp add: fu) (simp add: userless_env_def demo_env_def getSettledValue_def)
  have 3: "resolve branchless_env demo_repository =
     Inr \<lparr>res_provider = demo_provider, res_gitProfileId = ''me@example.org'',
          res_branchName = []\<rparr>"
    using create_resolution[of branchless_env demo_repository "''abc''" "''diff --git a b''",
        THEN conjunct1]
    by (simp add: fb) (simp add: branchless_env_def demo_env_def getSettledValue_def)
  have 4: "resolve anonymous_env demo_repository =
     Inr \<lparr>res_provider = demo_provider, res_gitProfileId = [], res_branchName = []\<rparr>"
    using create_resolution[of anonymous_env demo_repository "''abc''" "''diff --git a b''",
        THEN conjunct1]
    by (simp add: fa) (simp add: anonymous_env_def demo_env_def getSettledValue_def)
  have g: "snd (get anonymous_env ''d1'') = Inr (Some demo_read_draft)"
    by (simp add: get_def getChangesets_def io_defs anonymous_env_def demo_env_def demo_draft_def
        demo_read_draft_def)
  have c: "csd_patches demo_created = demo_created_patch # []"
    by (simp add: demo_created_def demo_created_patch_def)
  have pre: "resolve anonymous_env demo_repository =
       Inr \<lparr>res_provider = demo_provider, res_gitProfileId = [], res_branchName = []\<rparr> \<and>
     post_drafts anonymous_env (draft_create_request anonymous_env) = Inr (Some ''d1'') \<and>
     snd (get anonymous_env ''d1'') = Inr (Some demo_read_draft) \<and>
     getUniqueRepositoryId anonymous_env (repo_path demo_repository) = Inr (Some ''1f3a'') \<and>
     post_changesets anonymous_env
       (changeset_create_request anonymous_env ''d1''
          (res_gitProfileId \<lparr>res_provider = demo_provider, res_gitProfileId = [], res_branchName = []\<rparr>)
          ''abc''
          (res_branchName \<lparr>res_provider = demo_provider, res_gitProfileId = [], res_branchName = []\<rparr>)
          (Some ''1f3a'')) = Inr (Some demo_created) \<and>
     csd_patches demo_created = demo_created_patch # [] \<and>
     pr_secureUploadData demo_created_patch = Some demo_upload \<and>
     node_fetch_text anonymous_env (upload_request demo_upload ''diff --git a b'') =
       Inr ''diff --git a b'' \<and>
     patch_patches anonymous_env
       (patch_update_request anonymous_env (pr_id demo_created_patch) ''abc''
          (res_gitProfileId \<lparr>res_provider = demo_provider, res_gitProfileId = [], res_branchName = []\<rparr>)
          (res_provider \<lparr>res_provider = demo_provider, res_gitProfileId = [], res_branchName = []\<rparr>)
          (res_branchName \<lparr>res_provider = demo_provider, res_gitProfileId = [], res_branchName = []\<rparr>)) =
       Inr ()"
    using 4 g c by (simp add: anonymous_env_def demo_env_def demo_created_patch_def)
  note inst = create_resolution[of anonymous_env demo_repository "''abc''" "''diff --git a b''",
        THEN conjunct2, THEN conjunct2, THEN conjunct2, THEN conjunct2, rule_format, OF pre]
  have 5: "create anonymous_env demo_repository ''abc'' ''diff --git a b'' =
     ((Connection, draft_create_request anonymous_env) # fst (get anonymous_env ''d1'') @
        [(Connection, changeset_create_request anonymous_env ''d1'' [] ''abc'' [] (Some ''1f3a'')),
         (NodeFetch, upload_request demo_upload ''diff --git a b''),
         (Connection, patch_update_request anonymous_env ''p1'' ''abc'' [] demo_provider [])],
      Inr (Some (demo_read_draft\<lparr>cp_changesets := [raw_changeset demo_created]\<rparr>)))"
    using inst by (simp add: demo_created_patch_def)
  show ?thesis
    by (intro conjI) (rule n, rule 1, rule 2, rule 3, rule 4, rule 5)
qed


lemma create_trace:
  assumes "resolve env repository = Inr r"
    and "post_drafts env (draft_create_request env) = Inr (Some draftId)"
    and "snd (get env draftId) = Inr (Some d)"
  shows "fst (create env repository baseSha contents) =
         (Connection, draft_create_request env) # fst (get env draftId) @
         fst (publish env repository baseSha contents r draftId d)"
  using assms by (simp add: create_def fst_io_bind io_call_def)

lemma publish_trace:
  assumes "getUniqueRepositoryId env (repo_path repository) = Inr sha"
  shows "\<exists>rest. fst (publish env repository baseSha contents r draftId d) =
         (Connection, changeset_create_request env draftId (res_gitProfileId r) baseSha
            (res_branchName r) sha) # rest"
  using assms by (simp add: publish_def fst_io_bind io_call_def io_await_def)

lemma sent_gitRepoData_changeset:
  "sent_gitRepoData (changeset_create_request env draftId gitProfileId baseSha branchName sha) =
     Some (gitRepoData sha)"
  by (simp add: sent_gitRepoData_def changeset_create_request_def js_object_def json_member_def
      List.map_filter_simps)

text \<open>
  C9, as amended. When \<^verbatim>\<open>create\<close> reaches the changeset-creation request, the
  \<^verbatim>\<open>gitRepoData\<close> it sends holds \<^verbatim>\<open>initialCommitSha\<close> exactly when the unique repository id
  is defined and is not the placeholder \<^verbatim>\<open>'-'\<close>; otherwise it is the empty object.
\<close>

theorem create_initialCommitSha:
  assumes "resolve env repository = Inr r"
    and "post_drafts env (draft_create_request env) = Inr (Some draftId)"
    and "snd (get env draftId) = Inr (Some d)"
    and "getUniqueRepositoryId env (repo_path repository) = Inr sha"
  shows "\<exists>req. (Connection, req) \<in> set (fst (create env repository baseSha contents)) \<and>
           req = changeset_create_request env draftId (res_gitProfileId r) baseSha
                   (res_branchName r) sha \<and>
           sent_gitRepoData req = Some (gitRepoData sha) \<and>
           gitRepoData sha =
             (if sha \<noteq> None \<and> sha \<noteq> Some ''-''
              then JObject [(''initialCommitSha'', JString (the sha))] else JObject [])"
proof -
  obtain rest where "fst (publish env repository baseSha contents r draftId d) =
         (Connection, changeset_create_request env draftId (res_gitProfileId r) baseSha
            (res_branchName r) sha) # rest"
    using publish_trace[OF assms(4)] by blast
  then have "(Connection, changeset_create_request env draftId (res_gitProfileId r) baseSha
            (res_branchName r) sha) \<in> set (fst (create env repository baseSha contents))"
    by (simp add: create_trace[OF assms(1-3)])
  moreover have "gitRepoData sha =
             (if sha \<noteq> None \<and> sha \<noteq> Some ''-''
              then JObject [(''initialCommitSha'', JString (the sha))] else JObject [])"
    by (simp add: gitRepoData_def split: option.splits)
  ultimately show ?thesis by (simp add: sent_gitRepoData_changeset)
qed

text \<open>An empty id is sent as it is: the guard compares with \<^verbatim>\<open>null\<close> and \<^verbatim>\<open>'-'\<close> only.\<close>

theorem create_initialCommitSha_counterexample:
  "map (sent_gitRepoData \<circ> snd) (fst (create empty_id_env demo_repository ''abc'' ''diff --git a b'')) ! 3 =
     Some (JObject [(''initialCommitSha'', JString [])])"
  by (simp add: create_def publish_def resolve_def get_def getChangesets_def io_defs
      getSettledValue_def empty_id_env_def demo_defs sent_gitRepoData_def json_member_def
      changeset_create_request_def js_object_def gitRepoData_def List.map_filter_simps)

theorem create_initialCommitSha_witness:
  "resolve demo_env demo_repository =
     Inr \<lparr>res_provider = demo_provider, res_gitProfileId = ''me@example.org'', res_branchName = ''main''\<rparr> \<and>
   (Connection, changeset_create_request demo_env ''d1'' ''me@example.org'' ''abc'' ''main'' (Some ''1f3a''))
      \<in> set (fst (create demo_env demo_repository ''abc'' ''diff --git a b'')) \<and>
   sent_gitRepoData (changeset_create_request demo_env ''d1'' ''me@example.org'' ''abc'' ''main'' (Some ''1f3a'')) =
     Some (JObject [(''initialCommitSha'', JString ''1f3a'')])"
proof -
  have h1: "resolve demo_env demo_repository =
     Inr \<lparr>res_provider = demo_provider, res_gitProfileId = ''me@example.org'', res_branchName = ''main''\<rparr>"
    by (simp add: resolve_def demo_env_def getSettledValue_def)
  have h2: "post_drafts demo_env (draft_create_request demo_env) = Inr (Some ''d1'')"
    by (simp add: demo_env_def)
  have h3: "snd (get demo_env ''d1'') = Inr (Some
      \<lparr>cp_id = ''d1'', cp_linkUrl = ''https://gk.example/d1'', cp_title = None,
       cp_description = None, cp_createdAt = Date ''2023-10-01'', cp_updatedAt = Date ''2023-10-01'',
       cp_createdBy = ''u1'', cp_isPublic = False, cp_organizationId = None, cp_changesets = []\<rparr>)"
    by (simp add: get_def getChangesets_def io_defs demo_env_def demo_draft_def)
  have h4: "getUniqueRepositoryId demo_env (repo_path demo_repository) = Inr (Some ''1f3a'')"
    by (simp add: demo_env_def)
  show ?thesis
    using h1 create_initialCommitSha[OF h1 h2 h3 h4, of "''abc''" "''diff --git a b''"] by simp
qed


text \<open>
  C7. \<^verbatim>\<open>get\<close> reads the draft and then its changesets in a second request. When the
  answer to the second carries no \<^verbatim>\<open>data\<close>, \<^verbatim>\<open>getChangesets\<close> throws on \<^verbatim>\<open>.map\<close> and
  the whole read fails: the fallback \<^verbatim>\<open>changeSets ?? []\<close> of \<^verbatim>\<open>get\<close> is never reached.
\<close>

theorem get_absent_changesets:
  "get no_changesets_env ''d1'' =
     ([(Connection, draft_request no_changesets_env ''d1''),
       (Connection, changesets_request no_changesets_env ''d1'')],
      Inl (TypeError ''Cannot read properties of undefined (reading map)''))"
  by (simp add: get_def getChangesets_def io_defs no_changesets_env_def demo_env_def)

text \<open>\<^verbatim>\<open>getChangesets\<close> never fulfils with \<^verbatim>\<open>undefined\<close>.\<close>

lemma getChangesets_defined: "snd (getChangesets env ident) \<noteq> Inr None"
  by (simp add: getChangesets_def snd_io_bind io_call_def io_throw_def io_return_def
      split: sum.splits option.splits)

text \<open>
  C8. The upload goes to the pre-signed endpoint with its method and its first
  \<^verbatim>\<open>Host\<close> value, and the body is the raw patch; the content type it is labelled with is
  \<^verbatim>\<open>plain/text\<close>, not \<^verbatim>\<open>text/plain\<close>.
\<close>

theorem create_upload_content_type:
  "fst (create demo_env demo_repository ''abc'' ''diff --git a b'') ! 4 =
     (NodeFetch,
      \<lparr>req_url = ''https://blobs.example/put/p1'', req_method = ''PUT'',
       req_headers = [(''Content-Type'', ''plain/text''), (''Host'', ''blobs.example'')],
       req_body = Some (TextBody ''diff --git a b'')\<rparr>)"
  by (simp add: create_def publish_def resolve_def get_def getChangesets_def io_defs
      getSettledValue_def demo_defs upload_request_def host_header_def)

text \<open>The three download paths: each asks the pre-signed download endpoint of the row
  for \<^verbatim>\<open>text/plain\<close> and hands on the text of the answer.\<close>

lemma download_request_accept:
  "req_url (download_request sd) = sd_url sd \<and> req_method (download_request sd) = sd_method sd \<and>
   map_of (req_headers (download_request sd)) ''Accept'' = Some ''text/plain''"
  by (simp add: download_request_def)

lemma getPatchContents_download:
  assumes "get_patch env (patch_request env ident) = Inr (Some row)"
    and "pr_secureDownloadData row = Some sd"
  shows "getPatchContents env ident =
           ([(Connection, patch_request env ident), (NodeFetch, download_request sd)],
            node_fetch_text env (download_request sd))"
  using assms by (simp add: getPatchContents_def io_defs)

lemma getPatch_download:
  assumes "get_patch env (patch_request env ident) = Inr (Some row)"
    and "pr_secureDownloadData row = Some sd"
  shows "fst (getPatch env ident) =
           [(Connection, patch_request env ident), (NodeFetch, download_request sd)] \<and>
         (\<forall>contents. node_fetch_text env (download_request sd) = Inr contents \<longrightarrow>
            (\<exists>d. snd (getPatch env ident) = Inr d \<and> cpd_contents d = contents))"
  using assms by (auto simp: getPatch_def io_defs split: sum.splits)

lemma patch_task_download:
  assumes "wants_contents options" and "pr_secureDownloadData row = Some sd"
  shows "fst (patch_task env options row) = [(Connection, download_request sd)]"
  using assms by (simp add: fst_patch_task)

section \<open>Properties of the webview\<close>

lemma snd_getDetailsModel:
  "snd (getDetailsModel host r s) =
     (case inner_patch (heap s r) of
        Inl e \<Rightarrow> s
      | Inr patch \<Rightarrow> if gp_files patch = None then s\<lparr>timeouts := timeouts s @ [r]\<rparr> else s)"
  by (simp add: getDetailsModel_def split: sum.splits)

lemma snd_getState:
  "snd (getState host c s) =
     (case ctx_patch c of None \<Rightarrow> s | Some r \<Rightarrow> snd (getDetailsModel host r s))"
  by (simp add: getState_def split: option.splits prod.splits sum.splits)

lemma getState_timeouts_only:
  "snd (getState host c s) = s\<lparr>timeouts := timeouts (snd (getState host c s))\<rparr>"
  by (simp add: snd_getState snd_getDetailsModel split: option.splits sum.splits)

lemma getState_frame:
  "this_context (snd (getState host c s)) = this_context s"
  "this_pendingContext (snd (getState host c s)) = this_pendingContext s"
  "debounceTimer (snd (getState host c s)) = debounceTimer s"
  "notifications (snd (getState host c s)) = notifications s"
  "heap (snd (getState host c s)) = heap s"
  "clock (snd (getState host c s)) = clock s"
  "logged (snd (getState host c s)) = logged s"
  "shown (snd (getState host c s)) = shown s"
  by (subst getState_timeouts_only, simp)+

lemma notifyDidChangeState_noop:
  "\<not> force \<Longrightarrow> this_pendingContext s = None \<Longrightarrow>
   notifyDidChangeState host force s = (Some False, s\<lparr>debounceTimer := None\<rparr>)"
  by (simp add: notifyDidChangeState_def)

lemma notifyDidChangeState_flushes:
  assumes "force \<or> this_pendingContext s \<noteq> None"
  shows "notifyDidChangeState host force s =
     (None,
      case getState host (effective s) (flushed s) of
        (Inr state, s2) \<Rightarrow> s2\<lparr>notifications := notifications s2 @ [state]\<rparr>
      | (Inl ex, s2) \<Rightarrow> s2\<lparr>logged := logged s2 @ [ex]\<rparr>)"
proof (cases "this_pendingContext s")
  case None
  then have "flushed s = s\<lparr>debounceTimer := None\<rparr>"
    by (simp add: flushed_def effective_def)
  with None assms show ?thesis
    by (simp add: notifyDidChangeState_def effective_def split: prod.splits sum.splits)
next
  case (Some p)
  then have "flushed s = s\<lparr>debounceTimer := None, this_context := spread (this_context s) p,
      this_pendingContext := None\<rparr>"
    by (simp add: flushed_def effective_def)
  with Some show ?thesis
    by (simp add: notifyDidChangeState_def effective_def split: prod.splits sum.splits)
qed


lemma merge_field_effective:
  "(case snd (merge_field force cur pend upd) of None \<Rightarrow> cur | Some v \<Rightarrow> v) =
   (case upd of None \<Rightarrow> (case pend of None \<Rightarrow> cur | Some w \<Rightarrow> w) | Some v \<Rightarrow> v)"
  by (auto simp: merge_field_def split: option.splits)

lemma merge_field_unchanged:
  "\<not> fst (merge_field force cur pend upd) \<Longrightarrow>
   (case upd of None \<Rightarrow> (case pend of None \<Rightarrow> cur | Some w \<Rightarrow> w) | Some v \<Rightarrow> v) =
   (case pend of None \<Rightarrow> cur | Some w \<Rightarrow> w)"
  by (auto simp: merge_field_def split: option.splits if_splits)

lemma updatePendingContext_context:
  "this_context (snd (updatePendingContext u force s)) = this_context s"
  by (simp add: updatePendingContext_def split: prod.splits)

lemma updatePendingContext_effective:
  "effective (snd (updatePendingContext u force s)) = spread (effective s) u"
proof -
  define p where "p = (case this_pendingContext s of None \<Rightarrow> empty_pending | Some q \<Rightarrow> q)"
  have eff: "effective s = spread (this_context s) p"
    by (cases "this_pendingContext s") (simp_all add: effective_def p_def spread_def empty_pending_def)
  define f1 where "f1 = merge_field force (ctx_patch (this_context s)) (pend_patch p) (pend_patch u)"
  define f2 where "f2 = merge_field force (ctx_preferences (this_context s)) (pend_preferences p) (pend_preferences u)"
  define f3 where "f3 = merge_field force (ctx_visible (this_context s)) (pend_visible p) (pend_visible u)"
  show ?thesis
  proof (cases "fst f1 \<or> fst f2 \<or> fst f3")
    case True
    then have "this_pendingContext (snd (updatePendingContext u force s)) =
        Some \<lparr>pend_patch = snd f1, pend_preferences = snd f2, pend_visible = snd f3\<rparr>"
      by (simp add: updatePendingContext_def controller_updatePendingContext_def Let_def
          f1_def f2_def f3_def p_def)
    then have "effective (snd (updatePendingContext u force s)) =
        spread (this_context s)
          \<lparr>pend_patch = snd f1, pend_preferences = snd f2, pend_visible = snd f3\<rparr>"
      by (simp add: effective_def updatePendingContext_context)
    then show ?thesis
      unfolding eff
      by (simp add: spread_def f1_def f2_def f3_def merge_field_effective cong: option.case_cong)
  next
    case False
    then have same: "snd (updatePendingContext u force s) = s"
      by (simp add: updatePendingContext_def controller_updatePendingContext_def Let_def
          f1_def f2_def f3_def p_def)
    from False have "\<not> fst f1" "\<not> fst f2" "\<not> fst f3" by simp_all
    then show ?thesis
      unfolding same eff f1_def f2_def f3_def
      by (simp add: spread_def merge_field_unchanged cong: option.case_cong)
  qed
qed

lemma notifyDidChangeState_context:
  "this_context (snd (notifyDidChangeState host force s)) = effective s \<and>
   this_pendingContext (snd (notifyDidChangeState host force s)) = None"
proof (cases "force \<or> this_pendingContext s \<noteq> None")
  case True
  obtain r s2 where g: "getState host (effective s) (flushed s) = (r, s2)"
    by (cases "getState host (effective s) (flushed s)")
  then have "s2 = snd (getState host (effective s) (flushed s))" by simp
  then have "this_context s2 = effective s" "this_pendingContext s2 = None"
    by (simp_all add: getState_frame flushed_def)
  then show ?thesis
    by (cases r) (simp_all add: notifyDidChangeState_flushes[OF True] g)
next
  case False
  then show ?thesis by (simp add: notifyDidChangeState_noop effective_def)
qed

lemma notifyDidChangeState_notifications:
  assumes "force \<or> this_pendingContext s \<noteq> None"
  shows "notifications (snd (notifyDidChangeState host force s)) =
         notifications s @
           (case fst (getState host (effective s) (flushed s)) of
              Inr state \<Rightarrow> [state] | Inl ex \<Rightarrow> [])"
proof -
  obtain r s2 where g: "getState host (effective s) (flushed s) = (r, s2)"
    by (cases "getState host (effective s) (flushed s)")
  then have "s2 = snd (getState host (effective s) (flushed s))" by simp
  then have "notifications s2 = notifications s"
    by (simp add: getState_frame flushed_def)
  then show ?thesis
    by (cases r) (simp_all add: notifyDidChangeState_flushes[OF assms] g)
qed



lemmas burst_eval = elapse_def updatePendingContext_def controller_updatePendingContext_def
  merge_field_def Let_def updateState_def debounce_call_def empty_pending_def




lemma inner_patch_map_inner:
  "inner_patch ps = Inr p \<Longrightarrow> inner_patch (map_inner f ps) = Inr (f p)"
  by (auto simp: inner_patch_def map_inner_def split: patchset.splits list.splits)

lemma shown_set_inner: "shown (set_inner r f s) = shown s"
  by (simp add: set_inner_def)

lemma materialize_shown:
  "\<exists>more. shown (snd (materialize host r patch s)) = shown s @ more"
  by (auto simp: materialize_def shown_set_inner split: option.splits sum.splits)

lemma choose_base_shown:
  "\<exists>more. shown (snd (choose_base host r patch s)) = shown s @ more"
proof (cases "gp_baseRef patch")
  case (Some b)
  then show ?thesis using materialize_shown[of host r patch s] by (simp add: choose_base_def)
next
  case None
  show ?thesis
  proof (cases "gp_repo patch")
    case n: None
    with None show ?thesis by (simp add: choose_base_def)
  next
    case (Some repo)
    show ?thesis
    proof (cases "showCommitPicker host (repo_uri repo) base_title base_placeholder")
      case n: None
      with None Some show ?thesis by (simp add: choose_base_def Let_def)
    next
      case p: (Some pick)
      obtain more where "shown (snd (materialize host r (patch\<lparr>gp_baseRef := Some (commit_sha pick)\<rparr>)
                         (set_inner r (\<lambda>p. p\<lparr>gp_baseRef := Some (commit_sha pick)\<rparr>)
                            (s\<lparr>shown := shown s @ [base_prompt repo]\<rparr>)))) =
          shown (set_inner r (\<lambda>p. p\<lparr>gp_baseRef := Some (commit_sha pick)\<rparr>)
                            (s\<lparr>shown := shown s @ [base_prompt repo]\<rparr>)) @ more"
        using materialize_shown by blast
      with None Some p show ?thesis by (simp add: choose_base_def Let_def shown_set_inner)
    qed
  qed
qed

lemma choose_base_prompts:
  assumes "gp_repo patch = Some repo" and "gp_baseRef patch = None"
  shows "\<exists>rest. shown (snd (choose_base host r patch s)) = shown s @ base_prompt repo # rest"
proof (cases "showCommitPicker host (repo_uri repo) base_title base_placeholder")
  case None
  with assms show ?thesis by (simp add: choose_base_def Let_def)
next
  case (Some pick)
  obtain more where "shown (snd (materialize host r (patch\<lparr>gp_baseRef := Some (commit_sha pick)\<rparr>)
                     (set_inner r (\<lambda>p. p\<lparr>gp_baseRef := Some (commit_sha pick)\<rparr>)
                        (s\<lparr>shown := shown s @ [base_prompt repo]\<rparr>)))) =
      shown (set_inner r (\<lambda>p. p\<lparr>gp_baseRef := Some (commit_sha pick)\<rparr>)
                        (s\<lparr>shown := shown s @ [base_prompt repo]\<rparr>)) @ more"
    using materialize_shown by blast
  with assms Some show ?thesis by (simp add: choose_base_def Let_def shown_set_inner)
qed

lemma choose_repo_prompts:
  assumes "gp_repo patch = None"
  shows "\<exists>rest. shown (snd (choose_repo host r patch s)) = shown s @ repository_prompt # rest"
proof (cases "getRepositoryOrShowPicker host repository_title repository_placeholder")
  case None
  with assms show ?thesis by (simp add: choose_repo_def Let_def)
next
  case (Some pick)
  obtain more where "shown (snd (choose_base host r (patch\<lparr>gp_repo := Some pick\<rparr>)
                    (set_inner r (\<lambda>p. p\<lparr>gp_repo := Some pick\<rparr>)
                       (s\<lparr>shown := shown s @ [repository_prompt]\<rparr>)))) =
      shown (set_inner r (\<lambda>p. p\<lparr>gp_repo := Some pick\<rparr>)
                       (s\<lparr>shown := shown s @ [repository_prompt]\<rparr>)) @ more"
    using choose_base_shown by blast
  with assms Some show ?thesis by (simp add: choose_repo_def Let_def shown_set_inner)
qed

text \<open>
  C4. For a context that shows a patch, \<^verbatim>\<open>getUnreachablePatchCommit\<close> does not throw in
  the three cases and takes them in this order. Without a repository the first thing it
  shows is the repository pick, and a declined pick returns \<^verbatim>\<open>undefined\<close>. With a
  repository and without a base the first thing it shows is the commit pick for that
  repository, and a declined pick returns \<^verbatim>\<open>undefined\<close>. With both, no commit yet and a
  failing \<^verbatim>\<open>createUnreachableCommitForPatch\<close>, it shows the error message, resets the base
  of the patch to unset and returns \<^verbatim>\<open>undefined\<close>.
\<close>

theorem getUnreachablePatchCommit_guards:
  assumes "ctx_patch (this_context s) = Some r" and "inner_patch (heap s r) = Inr patch"
  shows
    "(gp_repo patch = None \<longrightarrow>
        (\<exists>rest. shown (snd (getUnreachablePatchCommit host s)) =
                  shown s @ repository_prompt # rest) \<and>
        (getRepositoryOrShowPicker host repository_title repository_placeholder = None \<longrightarrow>
           getUnreachablePatchCommit host s =
             (Inr None, s\<lparr>shown := shown s @ [repository_prompt]\<rparr>))) \<and>
     (\<forall>repo. gp_repo patch = Some repo \<and> gp_baseRef patch = None \<longrightarrow>
        (\<exists>rest. shown (snd (getUnreachablePatchCommit host s)) =
                  shown s @ base_prompt repo # rest) \<and>
        (showCommitPicker host (repo_uri repo) base_title base_placeholder = None \<longrightarrow>
           getUnreachablePatchCommit host s =
             (Inr None, s\<lparr>shown := shown s @ [base_prompt repo]\<rparr>))) \<and>
     (\<forall>repo base ex.
        gp_repo patch = Some repo \<and> gp_baseRef patch = Some base \<and> gp_commit patch = None \<and>
        createUnreachableCommitForPatch host (repo_uri repo) (gp_contents patch) base ''PATCH'' =
          Inl ex \<longrightarrow>
        getUnreachablePatchCommit host s =
          (Inr None,
           set_inner r (\<lambda>p. p\<lparr>gp_baseRef := None\<rparr>)
             (s\<lparr>shown := shown s @ [preview_error (Some base) ex]\<rparr>)) \<and>
        inner_patch (heap (snd (getUnreachablePatchCommit host s)) r) =
          Inr (patch\<lparr>gp_baseRef := None\<rparr>))"
proof -
  have g: "getUnreachablePatchCommit host s = choose_repo host r patch s"
    using assms by (simp add: getUnreachablePatchCommit_def)
  have 1: "gp_repo patch = None \<longrightarrow>
        (\<exists>rest. shown (snd (getUnreachablePatchCommit host s)) =
                  shown s @ repository_prompt # rest) \<and>
        (getRepositoryOrShowPicker host repository_title repository_placeholder = None \<longrightarrow>
           getUnreachablePatchCommit host s =
             (Inr None, s\<lparr>shown := shown s @ [repository_prompt]\<rparr>))"
    using choose_repo_prompts[of patch host r s]
    by (simp add: g) (simp add: choose_repo_def Let_def)
  have 2: "\<forall>repo. gp_repo patch = Some repo \<and> gp_baseRef patch = None \<longrightarrow>
        (\<exists>rest. shown (snd (getUnreachablePatchCommit host s)) =
                  shown s @ base_prompt repo # rest) \<and>
        (showCommitPicker host (repo_uri repo) base_title base_placeholder = None \<longrightarrow>
           getUnreachablePatchCommit host s =
             (Inr None, s\<lparr>shown := shown s @ [base_prompt repo]\<rparr>))"
  proof (intro allI impI, elim conjE)
    fix repo assume a: "gp_repo patch = Some repo" "gp_baseRef patch = None"
    have c: "choose_repo host r patch s = choose_base host r patch s"
      using a by (simp add: choose_repo_def)
    show "(\<exists>rest. shown (snd (getUnreachablePatchCommit host s)) =
                  shown s @ base_prompt repo # rest) \<and>
        (showCommitPicker host (repo_uri repo) base_title base_placeholder = None \<longrightarrow>
           getUnreachablePatchCommit host s =
             (Inr None, s\<lparr>shown := shown s @ [base_prompt repo]\<rparr>))"
      using choose_base_prompts[OF a, of host r s]
      by (simp add: g c) (simp add: choose_base_def a Let_def)
  qed
  have 3: "\<forall>repo base ex.
        gp_repo patch = Some repo \<and> gp_baseRef patch = Some base \<and> gp_commit patch = None \<and>
        createUnreachableCommitForPatch host (repo_uri repo) (gp_contents patch) base ''PATCH'' =
          Inl ex \<longrightarrow>
        getUnreachablePatchCommit host s =
          (Inr None,
           set_inner r (\<lambda>p. p\<lparr>gp_baseRef := None\<rparr>)
             (s\<lparr>shown := shown s @ [preview_error (Some base) ex]\<rparr>)) \<and>
        inner_patch (heap (snd (getUnreachablePatchCommit host s)) r) =
          Inr (patch\<lparr>gp_baseRef := None\<rparr>)"
  proof (intro allI impI, elim conjE)
    fix repo base ex
    assume a: "gp_repo patch = Some repo" "gp_baseRef patch = Some base" "gp_commit patch = None"
      "createUnreachableCommitForPatch host (repo_uri repo) (gp_contents patch) base ''PATCH'' = Inl ex"
    have e: "getUnreachablePatchCommit host s =
          (Inr None,
           set_inner r (\<lambda>p. p\<lparr>gp_baseRef := None\<rparr>)
             (s\<lparr>shown := shown s @ [preview_error (Some base) ex]\<rparr>))"
      using a by (simp add: g choose_repo_def choose_base_def materialize_def)
    have "inner_patch (heap (set_inner r (\<lambda>p. p\<lparr>gp_baseRef := None\<rparr>)
             (s\<lparr>shown := shown s @ [preview_error (Some base) ex]\<rparr>)) r) = Inr (patch\<lparr>gp_baseRef := None\<rparr>)"
      using inner_patch_map_inner[OF assms(2), of "\<lambda>p. p\<lparr>gp_baseRef := None\<rparr>"]
      by (simp add: set_inner_def)
    with e show "getUnreachablePatchCommit host s =
          (Inr None,
           set_inner r (\<lambda>p. p\<lparr>gp_baseRef := None\<rparr>)
             (s\<lparr>shown := shown s @ [preview_error (Some base) ex]\<rparr>)) \<and>
        inner_patch (heap (snd (getUnreachablePatchCommit host s)) r) =
          Inr (patch\<lparr>gp_baseRef := None\<rparr>)"
      by simp
  qed
  show ?thesis using 1 2 3 by blast
qed


theorem getUnreachablePatchCommit_guards_witness:
  "getUnreachablePatchCommit demo_host idle_view =
     (Inr None, idle_view\<lparr>shown := shown idle_view @ [repository_prompt]\<rparr>) \<and>
   getUnreachablePatchCommit demo_host repo_view =
     (Inr None, repo_view\<lparr>shown := shown repo_view @ [base_prompt demo_repository]\<rparr>) \<and>
   fst (getUnreachablePatchCommit demo_host based_view) = Inr None \<and>
   shown (snd (getUnreachablePatchCommit demo_host based_view)) =
     [preview_error (Some ''abc'') (Error ''patch does not apply'')] \<and>
   inner_patch (heap (snd (getUnreachablePatchCommit demo_host based_view)) 0) =
     Inr (demo_patch\<lparr>gp_repo := Some demo_repository, gp_baseRef := None\<rparr>)"
proof -
  have c1: "ctx_patch (this_context idle_view) = Some 0"
    and c2: "ctx_patch (this_context repo_view) = Some 0"
    and c3: "ctx_patch (this_context based_view) = Some 0"
    by (simp_all add: idle_view_def repo_view_def based_view_def)
  have p1: "inner_patch (heap idle_view 0) = Inr demo_patch"
    by (simp add: idle_view_def inner_patch_def)
  have p2: "inner_patch (heap repo_view 0) = Inr (demo_patch\<lparr>gp_repo := Some demo_repository\<rparr>)"
    by (simp add: repo_view_def inner_patch_def)
  have p3: "inner_patch (heap based_view 0) =
      Inr (demo_patch\<lparr>gp_repo := Some demo_repository, gp_baseRef := Some ''abc''\<rparr>)"
    by (simp add: based_view_def inner_patch_def)
  have h1: "getRepositoryOrShowPicker demo_host repository_title repository_placeholder = None"
    and h2: "showCommitPicker demo_host (repo_uri demo_repository) base_title base_placeholder = None"
    and h3: "createUnreachableCommitForPatch demo_host (repo_uri demo_repository)
               (gp_contents (demo_patch\<lparr>gp_repo := Some demo_repository, gp_baseRef := Some ''abc''\<rparr>))
               ''abc'' ''PATCH'' = Inl (Error ''patch does not apply'')"
    by (simp_all add: demo_host_def)
  have f1: "gp_repo demo_patch = None"
    and f3: "gp_commit (demo_patch\<lparr>gp_repo := Some demo_repository, gp_baseRef := Some ''abc''\<rparr>) = None"
    by (simp_all add: demo_patch_def)
  have 1: "getUnreachablePatchCommit demo_host idle_view =
     (Inr None, idle_view\<lparr>shown := shown idle_view @ [repository_prompt]\<rparr>)"
    using getUnreachablePatchCommit_guards[OF c1 p1, of demo_host] h1 f1 by simp
  have 2: "getUnreachablePatchCommit demo_host repo_view =
     (Inr None, repo_view\<lparr>shown := shown repo_view @ [base_prompt demo_repository]\<rparr>)"
    using getUnreachablePatchCommit_guards[OF c2 p2, of demo_host] h2
    by (simp add: demo_patch_def)
  have 3: "getUnreachablePatchCommit demo_host based_view =
          (Inr None,
           set_inner 0 (\<lambda>p. p\<lparr>gp_baseRef := None\<rparr>)
             (based_view\<lparr>shown := shown based_view @
                [preview_error (Some ''abc'') (Error ''patch does not apply'')]\<rparr>)) \<and>
        inner_patch (heap (snd (getUnreachablePatchCommit demo_host based_view)) 0) =
          Inr (demo_patch\<lparr>gp_repo := Some demo_repository, gp_baseRef := None\<rparr>)"
  proof -
    have pre: "gp_repo (demo_patch\<lparr>gp_repo := Some demo_repository, gp_baseRef := Some ''abc''\<rparr>) =
        Some demo_repository \<and>
      gp_baseRef (demo_patch\<lparr>gp_repo := Some demo_repository, gp_baseRef := Some ''abc''\<rparr>) =
        Some ''abc'' \<and>
      gp_commit (demo_patch\<lparr>gp_repo := Some demo_repository, gp_baseRef := Some ''abc''\<rparr>) = None \<and>
      createUnreachableCommitForPatch demo_host (repo_uri demo_repository)
        (gp_contents (demo_patch\<lparr>gp_repo := Some demo_repository, gp_baseRef := Some ''abc''\<rparr>))
        ''abc'' ''PATCH'' = Inl (Error ''patch does not apply'')"
      using h3 f3 by simp
    have r: "(demo_patch\<lparr>gp_repo := Some demo_repository, gp_baseRef := Some ''abc''\<rparr>)
               \<lparr>gp_baseRef := None\<rparr> =
             demo_patch\<lparr>gp_repo := Some demo_repository, gp_baseRef := None\<rparr>"
      by simp
    show ?thesis
      using getUnreachablePatchCommit_guards[OF c3 p3, of demo_host, THEN conjunct2,
          THEN conjunct2, rule_format, OF pre]
      unfolding r .
  qed
  have s3: "shown based_view = []" by (simp add: based_view_def idle_view_def)
  have fst3: "fst (getUnreachablePatchCommit demo_host based_view) = Inr None"
    using 3[THEN conjunct1] by simp
  have sh3: "shown (snd (getUnreachablePatchCommit demo_host based_view)) =
     [preview_error (Some ''abc'') (Error ''patch does not apply'')]"
    using 3[THEN conjunct1] by (simp add: shown_set_inner s3)
  show ?thesis
    by (intro conjI) (rule 1, rule 2, rule fst3, rule sh3, rule 3[THEN conjunct2])
qed

lemma updatePendingContext_only_pending:
  "snd (updatePendingContext u f s) =
     s\<lparr>this_pendingContext := this_pendingContext (snd (updatePendingContext u f s))\<rparr>"
  by (simp add: updatePendingContext_def split: prod.splits)

lemma updatePendingContext_frame:
  "debounceTimer (snd (updatePendingContext u f s)) = debounceTimer s"
  "notifications (snd (updatePendingContext u f s)) = notifications s"
  "clock (snd (updatePendingContext u f s)) = clock s"
  "heap (snd (updatePendingContext u f s)) = heap s"
  "timeouts (snd (updatePendingContext u f s)) = timeouts s"
  by (subst updatePendingContext_only_pending, simp)+

lemma effective_frame [simp]:
  "effective (s\<lparr>clock := c\<rparr>) = effective s"
  "effective (s\<lparr>debounceTimer := d\<rparr>) = effective s"
  by (simp_all add: effective_def split: option.splits)

lemma elapse_quiet:
  assumes "quiet s" and "gap < 500"
  shows "elapse host gap s = s\<lparr>clock := clock s + gap\<rparr>"
  using assms by (auto simp: elapse_def quiet_def)

lemma burst_Cons: "burst host (call # rest) s = burst host rest (call_step host call s)"
  by (cases call) (simp add: call_step_def)

lemma call_step_quiet:
  assumes "quiet s" and "fst call < 500"
  shows "quiet (call_step host call s)"
    and "notifications (call_step host call s) = notifications s"
    and "this_context (call_step host call s) = this_context s"
    and "effective (call_step host call s) = spread (effective s) (fst (snd call))"
    and "debounceTimer (call_step host call s) = Some (clock (call_step host call s) + 500)"
    and "heap (call_step host call s) = heap s"
    and "timeouts (call_step host call s) = timeouts s"
  by (simp_all add: call_step_def elapse_quiet[OF assms] updateState_def debounce_call_def
      quiet_def updatePendingContext_frame updatePendingContext_context
      updatePendingContext_effective)

lemma burst_quiet:
  assumes "\<forall>call\<in>set calls. fst call < 500" and "quiet s"
  shows "quiet (burst host calls s) \<and>
         notifications (burst host calls s) = notifications s \<and>
         this_context (burst host calls s) = this_context s \<and>
         effective (burst host calls s) = merged (effective s) calls \<and>
         heap (burst host calls s) = heap s \<and>
         timeouts (burst host calls s) = timeouts s \<and>
         (calls \<noteq> [] \<longrightarrow>
            debounceTimer (burst host calls s) = Some (clock (burst host calls s) + 500))"
  using assms
proof (induction calls arbitrary: s)
  case Nil
  then show ?case by (simp add: merged_def)
next
  case (Cons call rest)
  have lt: "fst call < 500" and all: "\<forall>c\<in>set rest. fst c < 500"
    using Cons.prems(1) by simp_all
  note st = call_step_quiet[OF Cons.prems(2) lt, of host]
  note ih = Cons.IH[OF all st(1)]
  show ?case
  proof (cases rest)
    case Nil
    then show ?thesis using st by (simp add: burst_Cons merged_def)
  next
    case (Cons c cs)
    then show ?thesis using ih st by (simp add: burst_Cons merged_def)
  qed
qed

lemma elapse_due:
  assumes "debounceTimer s = Some (clock s + 500)"
  shows "elapse host 500 s =
     (snd (notifyDidChangeState host False (s\<lparr>clock := clock s + 500\<rparr>)))\<lparr>clock := clock s + 500\<rparr>"
  using assms by (simp add: elapse_def max_def)

lemma details_no_files:
  "gp_files patch = None \<Longrightarrow> details host ps patch = Inr d \<Longrightarrow> details_files d = None"
  by (auto simp: details_def details_files_def Let_def split: patchset.splits if_splits option.splits sum.splits)

lemma forced_patch_update:
  "snd (updatePendingContext (empty_pending\<lparr>pend_patch := Some (Some r)\<rparr>) True s) =
     s\<lparr>this_pendingContext :=
         Some ((case this_pendingContext s of None \<Rightarrow> empty_pending | Some q \<Rightarrow> q)
                 \<lparr>pend_patch := Some (Some r)\<rparr>)\<rparr>"
  by (cases "this_pendingContext s")
     (simp_all add: updatePendingContext_def controller_updatePendingContext_def merge_field_def
        Let_def empty_pending_def)

lemma run_timeout_runs:
  assumes "timeouts t = r # rest" and "inner_patch (heap t r) = Inr patch"
    and "getDiffFiles host [] (gp_contents patch) = Inr files"
  shows "run_timeout host t =
     t\<lparr>timeouts := rest,
       heap := (heap t)(r := map_inner (\<lambda>p. p\<lparr>gp_files := files\<rparr>) (heap t r)),
       this_pendingContext :=
         Some ((case this_pendingContext t of None \<Rightarrow> empty_pending | Some q \<Rightarrow> q)
                 \<lparr>pend_patch := Some (Some r)\<rparr>),
       debounceTimer := Some (clock t + 500)\<rparr>"
  using assms
  by (simp add: run_timeout_def Let_def forced_patch_update set_inner_def updateState_def
      debounce_call_def)

lemma run_timeout_expiry:
  assumes "timeouts t = r # rest" and "inner_patch (heap t r) = Inr patch"
    and "getDiffFiles host [] (gp_contents patch) = Inr files"
  shows "(\<forall>d<500. notifications (elapse host d (run_timeout host t)) = notifications t) \<and>
         ctx_patch (this_context (elapse host 500 (run_timeout host t))) = Some r \<and>
         this_pendingContext (elapse host 500 (run_timeout host t)) = None \<and>
         notifications (elapse host 500 (run_timeout host t)) =
           notifications t @
             (case fst (getState host (effective (run_timeout host t))
                          (flushed ((run_timeout host t)\<lparr>clock := clock t + 500\<rparr>))) of
                Inr state \<Rightarrow> [state]
              | Inl ex \<Rightarrow> [])"
proof -
  define t' where "t' = run_timeout host t"
  have run: "t' =
     t\<lparr>timeouts := rest,
       heap := (heap t)(r := map_inner (\<lambda>p. p\<lparr>gp_files := files\<rparr>) (heap t r)),
       this_pendingContext :=
         Some ((case this_pendingContext t of None \<Rightarrow> empty_pending | Some q \<Rightarrow> q)
                 \<lparr>pend_patch := Some (Some r)\<rparr>),
       debounceTimer := Some (clock t + 500)\<rparr>"
    unfolding t'_def by (rule run_timeout_runs[OF assms])
  have ck: "clock t' = clock t" and tm: "debounceTimer t' = Some (clock t' + 500)"
    and nt: "notifications t' = notifications t"
    and pn: "this_pendingContext t' \<noteq> None"
    by (simp_all add: run)
  have ep: "ctx_patch (effective t') = Some r"
    by (simp add: run effective_def spread_def)
  have early: "\<forall>d<500. notifications (elapse host d t') = notifications t"
    by (simp add: elapse_def tm nt)
  define t'' where "t'' = t'\<lparr>clock := clock t' + 500\<rparr>"
  have el: "elapse host 500 t' =
      (snd (notifyDidChangeState host False t''))\<lparr>clock := clock t' + 500\<rparr>"
    unfolding t''_def by (rule elapse_due[OF tm])
  have e2: "effective t'' = effective t'" by (simp add: t''_def)
  have p2: "False \<or> this_pendingContext t'' \<noteq> None" using pn by (simp add: t''_def)
  have ctx: "ctx_patch (this_context (elapse host 500 t')) = Some r"
    and pen: "this_pendingContext (elapse host 500 t') = None"
    using notifyDidChangeState_context[of host False t''] ep by (simp_all add: el e2)
  have nots: "notifications (elapse host 500 t') =
           notifications t @
             (case fst (getState host (effective t') (flushed t'')) of
                Inr state \<Rightarrow> [state]
              | Inl ex \<Rightarrow> [])"
    using notifyDidChangeState_notifications[OF p2, of host] nt
    by (simp add: el e2) (simp add: t''_def)
  have ck': "clock (run_timeout host t) = clock t" using ck by (simp add: t'_def)
  show ?thesis
    using early ctx pen nots unfolding t''_def t'_def by (simp add: ck')
qed

text \<open>
  C5, as amended. For a patch without \<^verbatim>\<open>files\<close>, \<^verbatim>\<open>getDetailsModel\<close> returns details
  without files and queues one callback for the same patch set. When the callback runs
  and \<^verbatim>\<open>getDiffFiles\<close> answers, it stores the files on that patch (and touches no other
  patch set), forces the same patch set into the pending overlay and calls
  \<^verbatim>\<open>updateState()\<close> without \<^verbatim>\<open>immediate\<close>: the debounce timer is armed for 500 ms and
  nothing is notified at that point, nor while less than 500 ms pass. When the 500 ms
  pass with no other call in between, the timer flushes: the patch set is committed,
  the overlay is cleared, and the state \<^verbatim>\<open>getState\<close> builds is notified unless
  \<^verbatim>\<open>getState\<close> throws.
\<close>

theorem getDetailsModel_enrichment:
  assumes "inner_patch (heap s r) = Inr patch" and "gp_files patch = None"
  shows "(\<forall>d. fst (getDetailsModel host r s) = Inr d \<longrightarrow> details_files d = None) \<and>
         snd (getDetailsModel host r s) = s\<lparr>timeouts := timeouts s @ [r]\<rparr> \<and>
         (\<forall>t rest files.
            timeouts t = r # rest \<and> inner_patch (heap t r) = Inr patch \<and>
            getDiffFiles host [] (gp_contents patch) = Inr files \<longrightarrow>
            inner_patch (heap (run_timeout host t) r) = Inr (patch\<lparr>gp_files := files\<rparr>) \<and>
            (\<forall>r'. r' \<noteq> r \<longrightarrow> heap (run_timeout host t) r' = heap t r') \<and>
            this_context (run_timeout host t) = this_context t \<and>
            this_pendingContext (run_timeout host t) =
              Some ((case this_pendingContext t of None \<Rightarrow> empty_pending | Some q \<Rightarrow> q)
                      \<lparr>pend_patch := Some (Some r)\<rparr>) \<and>
            debounceTimer (run_timeout host t) = Some (clock t + 500) \<and>
            notifications (run_timeout host t) = notifications t \<and>
            timeouts (run_timeout host t) = rest \<and>
            (\<forall>d<500. notifications (elapse host d (run_timeout host t)) = notifications t) \<and>
            ctx_patch (this_context (elapse host 500 (run_timeout host t))) = Some r \<and>
            this_pendingContext (elapse host 500 (run_timeout host t)) = None \<and>
            notifications (elapse host 500 (run_timeout host t)) =
              notifications t @
                (case fst (getState host (effective (run_timeout host t))
                             (flushed ((run_timeout host t)\<lparr>clock := clock t + 500\<rparr>))) of
                   Inr state \<Rightarrow> [state]
                 | Inl ex \<Rightarrow> []))"
proof -
  have 1: "\<forall>d. fst (getDetailsModel host r s) = Inr d \<longrightarrow> details_files d = None"
    using assms details_no_files[of patch host "heap s r"]
    by (simp add: getDetailsModel_def)
  have 2: "snd (getDetailsModel host r s) = s\<lparr>timeouts := timeouts s @ [r]\<rparr>"
    using assms by (simp add: snd_getDetailsModel)
  have 3: "\<forall>t rest files.
            timeouts t = r # rest \<and> inner_patch (heap t r) = Inr patch \<and>
            getDiffFiles host [] (gp_contents patch) = Inr files \<longrightarrow>
            inner_patch (heap (run_timeout host t) r) = Inr (patch\<lparr>gp_files := files\<rparr>) \<and>
            (\<forall>r'. r' \<noteq> r \<longrightarrow> heap (run_timeout host t) r' = heap t r') \<and>
            this_context (run_timeout host t) = this_context t \<and>
            this_pendingContext (run_timeout host t) =
              Some ((case this_pendingContext t of None \<Rightarrow> empty_pending | Some q \<Rightarrow> q)
                      \<lparr>pend_patch := Some (Some r)\<rparr>) \<and>
            debounceTimer (run_timeout host t) = Some (clock t + 500) \<and>
            notifications (run_timeout host t) = notifications t \<and>
            timeouts (run_timeout host t) = rest \<and>
            (\<forall>d<500. notifications (elapse host d (run_timeout host t)) = notifications t) \<and>
            ctx_patch (this_context (elapse host 500 (run_timeout host t))) = Some r \<and>
            this_pendingContext (elapse host 500 (run_timeout host t)) = None \<and>
            notifications (elapse host 500 (run_timeout host t)) =
              notifications t @
                (case fst (getState host (effective (run_timeout host t))
                             (flushed ((run_timeout host t)\<lparr>clock := clock t + 500\<rparr>))) of
                   Inr state \<Rightarrow> [state]
                 | Inl ex \<Rightarrow> [])"
  proof (intro allI impI, elim conjE)
    fix t :: provider and rest :: "ref list" and files :: "git_file list option"
    assume a: "timeouts t = r # rest" "inner_patch (heap t r) = Inr patch"
      "getDiffFiles host [] (gp_contents patch) = Inr files"
    show "inner_patch (heap (run_timeout host t) r) = Inr (patch\<lparr>gp_files := files\<rparr>) \<and>
            (\<forall>r'. r' \<noteq> r \<longrightarrow> heap (run_timeout host t) r' = heap t r') \<and>
            this_context (run_timeout host t) = this_context t \<and>
            this_pendingContext (run_timeout host t) =
              Some ((case this_pendingContext t of None \<Rightarrow> empty_pending | Some q \<Rightarrow> q)
                      \<lparr>pend_patch := Some (Some r)\<rparr>) \<and>
            debounceTimer (run_timeout host t) = Some (clock t + 500) \<and>
            notifications (run_timeout host t) = notifications t \<and>
            timeouts (run_timeout host t) = rest \<and>
            (\<forall>d<500. notifications (elapse host d (run_timeout host t)) = notifications t) \<and>
            ctx_patch (this_context (elapse host 500 (run_timeout host t))) = Some r \<and>
            this_pendingContext (elapse host 500 (run_timeout host t)) = None \<and>
            notifications (elapse host 500 (run_timeout host t)) =
              notifications t @
                (case fst (getState host (effective (run_timeout host t))
                             (flushed ((run_timeout host t)\<lparr>clock := clock t + 500\<rparr>))) of
                   Inr state \<Rightarrow> [state]
                 | Inl ex \<Rightarrow> [])"
    proof -
      have now: "inner_patch (heap (run_timeout host t) r) = Inr (patch\<lparr>gp_files := files\<rparr>) \<and>
            (\<forall>r'. r' \<noteq> r \<longrightarrow> heap (run_timeout host t) r' = heap t r') \<and>
            this_context (run_timeout host t) = this_context t \<and>
            this_pendingContext (run_timeout host t) =
              Some ((case this_pendingContext t of None \<Rightarrow> empty_pending | Some q \<Rightarrow> q)
                      \<lparr>pend_patch := Some (Some r)\<rparr>) \<and>
            debounceTimer (run_timeout host t) = Some (clock t + 500) \<and>
            notifications (run_timeout host t) = notifications t \<and>
            timeouts (run_timeout host t) = rest"
        using inner_patch_map_inner[OF a(2), of "\<lambda>p. p\<lparr>gp_files := files\<rparr>"]
        by (simp add: run_timeout_runs[OF a])
      from now run_timeout_expiry[OF a] show ?thesis by blast
    qed
  qed
  show ?thesis using 1 2 3 by blast
qed

text \<open>The claim as stated asks for an immediate notification after the callback. After
  the callback of the idle provider nothing was notified: the update is pending and the
  debounce timer is armed.\<close>

theorem getDetailsModel_enrichment_counterexample:
  "timeouts awaiting_files = [0] \<and>
   notifications (run_timeout demo_host awaiting_files) = [] \<and>
   debounceTimer (run_timeout demo_host awaiting_files) = Some 500 \<and>
   this_pendingContext (run_timeout demo_host awaiting_files) =
     Some (empty_pending\<lparr>pend_patch := Some (Some 0)\<rparr>)"
  by (simp add: awaiting_files_def getDetailsModel_def run_timeout_def inner_patch_def Let_def
      updatePendingContext_def controller_updatePendingContext_def merge_field_def
      updateState_def debounce_call_def set_inner_def map_inner_def empty_pending_def
      idle_view_def demo_host_def demo_patch_def)


theorem getDetailsModel_enrichment_witness:
  "inner_patch (heap idle_view 0) = Inr demo_patch \<and> gp_files demo_patch = None \<and>
   fst (getDetailsModel demo_host 0 idle_view) = Inr (LocalDetails None) \<and>
   details_files (LocalDetails None) = None \<and>
   snd (getDetailsModel demo_host 0 idle_view) = idle_view\<lparr>timeouts := timeouts idle_view @ [0]\<rparr> \<and>
   inner_patch (heap (run_timeout demo_host awaiting_files) 0) =
     Inr (demo_patch\<lparr>gp_files := Some [demo_file]\<rparr>) \<and>
   debounceTimer (run_timeout demo_host awaiting_files) = Some (clock awaiting_files + 500) \<and>
   notifications (run_timeout demo_host awaiting_files) = notifications awaiting_files \<and>
   timeouts (run_timeout demo_host awaiting_files) = [] \<and>
   notifications (elapse demo_host 499 (run_timeout demo_host awaiting_files)) = [] \<and>
   ctx_patch (this_context (elapse demo_host 500 (run_timeout demo_host awaiting_files))) = Some 0 \<and>
   notifications (elapse demo_host 500 (run_timeout demo_host awaiting_files)) =
     [\<lparr>st_webviewId = ''gitlens.views.patchDetails'', st_timestamp = 500,
       st_patch = Some (LocalDetails (Some [file_entry_of demo_host demo_file])),
       st_preferences = demo_preferences\<rparr>]"
proof -
  have h1: "inner_patch (heap idle_view 0) = Inr demo_patch"
    by (simp add: idle_view_def inner_patch_def)
  have h2: "gp_files demo_patch = None"
    by (simp add: demo_patch_def)
  note e = getDetailsModel_enrichment[OF h1 h2, of demo_host]
  have q: "awaiting_files = idle_view\<lparr>timeouts := timeouts idle_view @ [0]\<rparr>"
    using e by (simp add: awaiting_files_def)
  have pre: "timeouts awaiting_files = 0 # [] \<and> inner_patch (heap awaiting_files 0) = Inr demo_patch \<and>
     getDiffFiles demo_host [] (gp_contents demo_patch) = Inr (Some [demo_file])"
    using h1 by (simp add: q) (simp add: idle_view_def demo_host_def)
  note t = e[THEN conjunct2, THEN conjunct2, rule_format, OF pre]
  have d: "fst (getDetailsModel demo_host 0 idle_view) = Inr (LocalDetails None)"
    by (simp add: getDetailsModel_def details_def inner_patch_def idle_view_def demo_patch_def)
  have f: "details_files (LocalDetails None) = None"
    using e[THEN conjunct1, rule_format, OF d] .
  have n0: "notifications awaiting_files = []" and c0: "clock awaiting_files = 0"
    by (simp_all add: q) (simp_all add: idle_view_def)
  have ev: "run_timeout demo_host awaiting_files =
      awaiting_files\<lparr>timeouts := [],
        heap := (heap awaiting_files)
          (0 := map_inner (\<lambda>p. p\<lparr>gp_files := Some [demo_file]\<rparr>) (heap awaiting_files 0)),
        this_pendingContext :=
         Some ((case this_pendingContext awaiting_files of None \<Rightarrow> empty_pending | Some q \<Rightarrow> q)
                 \<lparr>pend_patch := Some (Some 0)\<rparr>),
        debounceTimer := Some (clock awaiting_files + 500)\<rparr>"
    by (rule run_timeout_runs[OF pre[THEN conjunct1] pre[THEN conjunct2, THEN conjunct1]
          pre[THEN conjunct2, THEN conjunct2]])
  have g: "fst (getState demo_host (effective (run_timeout demo_host awaiting_files))
              (flushed ((run_timeout demo_host awaiting_files)\<lparr>clock := clock awaiting_files + 500\<rparr>))) =
      Inr \<lparr>st_webviewId = ''gitlens.views.patchDetails'', st_timestamp = 500,
       st_patch = Some (LocalDetails (Some [file_entry_of demo_host demo_file])),
       st_preferences = demo_preferences\<rparr>"
    unfolding ev
    unfolding q
    by (simp add: getState_def getDetailsModel_def details_def inner_patch_def map_inner_def
        effective_def flushed_def spread_def empty_pending_def idle_view_def demo_patch_def)
       (simp add: demo_host_def)
  have early: "notifications (elapse demo_host 499 (run_timeout demo_host awaiting_files)) = []"
    using t n0 by simp
  have late: "notifications (elapse demo_host 500 (run_timeout demo_host awaiting_files)) =
     [\<lparr>st_webviewId = ''gitlens.views.patchDetails'', st_timestamp = 500,
       st_patch = Some (LocalDetails (Some [file_entry_of demo_host demo_file])),
       st_preferences = demo_preferences\<rparr>]"
    using t n0 by (simp add: g)
  show ?thesis
    using h1 h2 d f e[THEN conjunct2, THEN conjunct1] t early late by simp
qed

text \<open>
  C6, as amended. Updates that follow each other by less than 500 ms, each followed by
  \<^verbatim>\<open>updateState()\<close>, notify nothing while they arrive; the timer is re-armed by each
  for 500 ms after it. When these 500 ms have passed, the committed context is the old
  one merged with all the partials in order, and at most one state was notified: the one
  built from that context, sent when a pending overlay was there to flush and
  \<^verbatim>\<open>getState\<close> did not throw, and none otherwise.
\<close>

theorem burst_collapses:
  assumes "\<forall>call\<in>set calls. fst call < 500" and "debounceTimer s = None" and "calls \<noteq> []"
  shows "notifications (burst host calls s) = notifications s \<and>
         this_context (burst host calls s) = this_context s \<and>
         effective (burst host calls s) = merged (effective s) calls \<and>
         debounceTimer (burst host calls s) = Some (clock (burst host calls s) + 500) \<and>
         this_context (elapse host 500 (burst host calls s)) = merged (effective s) calls \<and>
         this_pendingContext (elapse host 500 (burst host calls s)) = None \<and>
         notifications (elapse host 500 (burst host calls s)) =
           notifications s @
             (if this_pendingContext (burst host calls s) = None then []
              else (case fst (getState host (merged (effective s) calls)
                               (flushed ((burst host calls s)
                                  \<lparr>clock := clock (burst host calls s) + 500\<rparr>))) of
                      Inr state \<Rightarrow> [state]
                    | Inl ex \<Rightarrow> []))"
proof -
  define b where "b = burst host calls s"
  define b' where "b' = b\<lparr>clock := clock b + 500\<rparr>"
  have q: "quiet s" using assms(2) by (simp add: quiet_def)
  note inv = burst_quiet[OF assms(1) q, of host, folded b_def]
  have timer: "debounceTimer b = Some (clock b + 500)" using inv assms(3) by simp
  have el: "elapse host 500 b = (snd (notifyDidChangeState host False b'))\<lparr>clock := clock b + 500\<rparr>"
    unfolding b'_def by (rule elapse_due[OF timer])
  have eff: "effective b' = merged (effective s) calls"
    using inv by (simp add: b'_def)
  have ctx: "this_context (elapse host 500 b) = merged (effective s) calls"
    and pen: "this_pendingContext (elapse host 500 b) = None"
    using notifyDidChangeState_context[of host False b'] by (simp_all add: el eff)
  have nots: "notifications (elapse host 500 b) =
           notifications s @
             (if this_pendingContext b = None then []
              else (case fst (getState host (merged (effective s) calls) (flushed b')) of
                      Inr state \<Rightarrow> [state]
                    | Inl ex \<Rightarrow> []))"
  proof (cases "this_pendingContext b")
    case None
    then have "this_pendingContext b' = None" by (simp add: b'_def)
    then have "notifyDidChangeState host False b' = (Some False, b'\<lparr>debounceTimer := None\<rparr>)"
      by (simp add: notifyDidChangeState_noop)
    with None inv show ?thesis by (simp add: el b'_def)
  next
    case (Some p)
    then have "False \<or> this_pendingContext b' \<noteq> None" by (simp add: b'_def)
    from notifyDidChangeState_notifications[OF this, of host] Some inv
    show ?thesis by (simp add: el eff) (simp add: b'_def)
  qed
  show ?thesis
    using inv timer ctx pen nots unfolding b_def b'_def by simp
qed


lemma burst_demo_calls:
  "burst demo_host demo_calls idle_view =
     idle_view\<lparr>this_pendingContext :=
                 Some \<lparr>pend_patch = Some None, pend_preferences = None, pend_visible = Some False\<rparr>,
               debounceTimer := Some 1099, clock := 599\<rparr>"
  by (simp add: demo_calls_def burst_eval idle_view_def)

text \<open>One update that sets \<open>visible\<close> to the value it has leaves no pending overlay, and
  the expiring timer notifies nothing.\<close>

theorem burst_collapses_counterexample:
  "notifications (elapse demo_host 500
     (burst demo_host [(0, empty_pending\<lparr>pend_visible := Some False\<rparr>, False)] idle_view)) = []"
  by (simp add: burst_eval notifyDidChangeState_def idle_view_def)

theorem burst_collapses_witness:
  "map fst demo_calls = [0, 100, 499] \<and> debounceTimer idle_view = None \<and> demo_calls \<noteq> [] \<and>
   this_context (elapse demo_host 500 (burst demo_host demo_calls idle_view)) =
     \<lparr>ctx_patch = None, ctx_preferences = demo_preferences, ctx_visible = False\<rparr> \<and>
   notifications (elapse demo_host 500 (burst demo_host demo_calls idle_view)) =
     [\<lparr>st_webviewId = ''gitlens.views.patchDetails'', st_timestamp = 1099, st_patch = None,
       st_preferences = demo_preferences\<rparr>]"
proof -
  have h1: "\<forall>call\<in>set demo_calls. fst call < 500" by (simp add: demo_calls_def)
  have h2: "debounceTimer idle_view = None" by (simp add: idle_view_def)
  have h3: "demo_calls \<noteq> []" by (simp add: demo_calls_def)
  have m: "merged (effective idle_view) demo_calls =
     \<lparr>ctx_patch = None, ctx_preferences = demo_preferences, ctx_visible = False\<rparr>"
    by (simp add: merged_def demo_calls_def effective_def idle_view_def spread_def empty_pending_def)
  have p: "this_pendingContext (burst demo_host demo_calls idle_view) \<noteq> None"
    by (simp add: burst_demo_calls)
  have g: "fst (getState demo_host \<lparr>ctx_patch = None, ctx_preferences = demo_preferences, ctx_visible = False\<rparr>
             (flushed ((burst demo_host demo_calls idle_view)
                \<lparr>clock := clock (burst demo_host demo_calls idle_view) + 500\<rparr>))) =
     Inr \<lparr>st_webviewId = ''gitlens.views.patchDetails'', st_timestamp = 1099, st_patch = None,
       st_preferences = demo_preferences\<rparr>"
    unfolding burst_demo_calls by (simp add: getState_def flushed_def demo_host_def)
  have n: "notifications idle_view = []" by (simp add: idle_view_def)
  have h0: "map fst demo_calls = [0, 100, 499]" by (simp add: demo_calls_def)
  show ?thesis
    using h0 h2 h3 burst_collapses[OF h1 h2 h3, of demo_host]
    by (simp add: m p g n)
qed

end
